theory Spec2Isabelle
  imports Main "HOL-Library.Word" "HOL-Library.Monad_Syntax"
begin

unbundle bit_operations_syntax

section \<open>The Glk adapter of wasi\_glk.c\<close>

text \<open>
  A shallow embedding of \<^verbatim>\<open>src/wasi-glk/wasi_glk.c\<close>. The C globals and the heap
  objects they point to form one state record that every operation takes and returns.
  A pointer is an optional address, \<open>None\<close> for \<^verbatim>\<open>NULL\<close>. An operation returns
  \<open>None\<close> where the C code has no defined behaviour: it dereferences a pointer to
  an object that is not allocated, or writes outside a caller's array.
\<close>

subsection \<open>Scalar types and the constants of glk.h\<close>

type_synonym glui32 = "32 word"
type_synonym glsi32 = "32 word"
type_synonym addr = nat
type_synonym ptr = "addr option"

text \<open>
  The header \<^verbatim>\<open>glk.h\<close> is not among the sources. Its enumerations are distinct
  numbers; each is a datatype here with one constructor per name the code mentions and
  one more for every other number. The numeric constants the code computes with are
  the fields of a record that is a parameter of the functions using them.
\<close>

datatype gestalt =
    gestalt_Version | gestalt_CharInput | gestalt_LineInput | gestalt_CharOutput
  | gestalt_MouseInput | gestalt_Timer | gestalt_Graphics | gestalt_DrawImage
  | gestalt_Sound | gestalt_SoundVolume | gestalt_SoundNotify | gestalt_Hyperlinks
  | gestalt_HyperlinkInput | gestalt_SoundMusic | gestalt_GraphicsTransparency
  | gestalt_Unicode | gestalt_UnicodeNorm | gestalt_LineInputEcho
  | gestalt_LineTerminators | gestalt_LineTerminatorKey | gestalt_DateTime
  | gestalt_Sound2 | gestalt_ResourceStream | gestalt_GraphicsCharInput
  | gestalt_DrawImageScale | gestalt_other

datatype evtype = evtype_None | evtype_CharInput | evtype_LineInput

datatype filemode =
  filemode_Write | filemode_Read | filemode_ReadWrite | filemode_WriteAppend | filemode_other

datatype seekmode = seekmode_Start | seekmode_Current | seekmode_End | seekmode_other

record glk_h =
  keycode_Return :: glui32
  keycode_MAXVAL :: glui32
  gestalt_CharOutput_ExactPrint :: glui32
  gestalt_CharOutput_CannotPrint :: glui32
  fileusage_TextMode :: glui32

subsection \<open>Structures\<close>

record glk_window_struct =
  win_magicnum :: glui32
  win_rock :: glui32
  win_type :: glui32
  win_id :: glui32
  char_request :: bool
  line_request :: bool
  char_request_uni :: bool
  line_request_uni :: bool
  line_buffer :: ptr
  line_buffer_uni :: ptr
  line_buflen :: glui32
  win_str :: ptr
  echostr :: ptr
  parent :: ptr
  child1 :: ptr
  child2 :: ptr
  win_prev :: ptr
  win_next :: ptr

record glk_stream_struct =
  str_magicnum :: glui32
  str_rock :: glui32
  str_id :: glui32
  str_type :: nat
  readable :: bool
  writable :: bool
  buf :: ptr
  buf_uni :: ptr
  buflen :: glui32
  bufptr :: glui32
  is_unicode :: bool
  str_file :: ptr
  str_win :: ptr
  readcount :: glui32
  writecount :: glui32
  str_prev :: ptr
  str_next :: ptr

record glk_fileref_struct =
  fref_magicnum :: glui32
  fref_rock :: glui32
  fref_id :: glui32
  filename :: string
  usage :: glui32
  textmode :: bool
  fref_prev :: ptr
  fref_next :: ptr

record stream_result_t =
  res_readcount :: glui32
  res_writecount :: glui32

record event_t =
  ev_type :: evtype
  ev_win :: ptr
  val1 :: glui32
  val2 :: glui32

text \<open>
  What the process does to the outside, in order: a line printed on standard output and
  flushed, a chunk returned by \<^verbatim>\<open>fgets\<close> on standard input, a read that met the end
  of input.
\<close>

datatype io_event = Put_line string | Get_line string | Get_eof

text \<open>
  An open \<^verbatim>\<open>FILE\<close> of the C library: the bytes of the file, the offset, and whether
  it was opened for appending (mode \<^verbatim>\<open>a\<close> or \<^verbatim>\<open>ab\<close>).
\<close>

record stdio_file =
  f_bytes :: string
  f_off :: nat
  f_append :: bool

subsection \<open>Global state\<close>

record glk_state =
  windows :: "addr \<rightharpoonup> glk_window_struct"
  streams :: "addr \<rightharpoonup> glk_stream_struct"
  filerefs :: "addr \<rightharpoonup> glk_fileref_struct"
  gli_rootwin :: ptr
  gli_windowlist :: ptr
  gli_streamlist :: ptr
  gli_currentstr :: ptr
  gli_filereflist :: ptr
  gli_window_id_counter :: glui32
  gli_stream_id_counter :: glui32
  gli_fileref_id_counter :: glui32
  json_buffer :: string
  json_pos :: nat
  mem :: "addr \<rightharpoonup> string"
  mem_uni :: "addr \<rightharpoonup> glui32 list"
  files :: "addr \<rightharpoonup> stdio_file"
  stdin :: string
  io :: "io_event list"
  exited :: bool

text \<open>The state at program start: the initialisers of the globals, nothing allocated.\<close>

definition initial_state :: "string \<Rightarrow> glk_state" where
  "initial_state inp =
     \<lparr> windows = Map.empty, streams = Map.empty, filerefs = Map.empty,
       gli_rootwin = None, gli_windowlist = None, gli_streamlist = None,
       gli_currentstr = None, gli_filereflist = None,
       gli_window_id_counter = 1, gli_stream_id_counter = 1, gli_fileref_id_counter = 1,
       json_buffer = [], json_pos = 0,
       mem = Map.empty, mem_uni = Map.empty, files = Map.empty,
       stdin = inp, io = [], exited = False \<rparr>"

definition MAGIC_WINDOW_NUM :: glui32 where "MAGIC_WINDOW_NUM = 0x474C4B57"
definition MAGIC_STREAM_NUM :: glui32 where "MAGIC_STREAM_NUM = 0x474C4B53"
definition MAGIC_FILEREF_NUM :: glui32 where "MAGIC_FILEREF_NUM = 0x474C4B46"

subsection \<open>C library: formatting and standard input\<close>

definition NUL :: char where "NUL = CHR 0x00"
definition newline :: char where "newline = CHR 0x0A"

text \<open>\<^verbatim>\<open>strlen\<close> and the characters of a C string: up to the first NUL.\<close>

definition c_string :: "string \<Rightarrow> string" where
  "c_string cs = takeWhile (\<lambda>c. c \<noteq> NUL) cs"

definition strlen :: "string \<Rightarrow> nat" where
  "strlen cs = length (c_string cs)"

definition digit_char :: "nat \<Rightarrow> char" where
  "digit_char d = ''0123456789'' ! d"

text \<open>The conversion \<^verbatim>\<open>%u\<close>: decimal digits, no padding.\<close>

fun fmt_u_nat :: "nat \<Rightarrow> string" where
  "fmt_u_nat n = (if n < 10 then [digit_char n] else fmt_u_nat (n div 10) @ [digit_char (n mod 10)])"

declare fmt_u_nat.simps [simp del]

definition fmt_u :: "glui32 \<Rightarrow> string" where
  "fmt_u w = fmt_u_nat (unat w)"

definition hex_char :: "nat \<Rightarrow> char" where
  "hex_char d = ''0123456789abcdef'' ! d"

text \<open>The conversion \<^verbatim>\<open>%04x\<close> of a byte: four hexadecimal digits.\<close>

definition fmt_04x :: "char \<Rightarrow> string" where
  "fmt_04x c = [CHR ''0'', CHR ''0'', hex_char (of_char c div 16), hex_char (of_char c mod 16)]"

text \<open>
  \<^verbatim>\<open>fgets(buf, n, stdin)\<close>: at end of input it returns \<^verbatim>\<open>NULL\<close>; otherwise it takes
  bytes up to and including the first newline, at most \<open>n - 1\<close> of them. The result is
  the chunk stored and the input that remains.
\<close>

fun upto_newline :: "string \<Rightarrow> string" where
  "upto_newline [] = []"
| "upto_newline (c # cs) = (if c = newline then [c] else c # upto_newline cs)"

definition fgets :: "nat \<Rightarrow> string \<Rightarrow> (string \<times> string) option" where
  "fgets n inp =
     (if inp = [] then None
      else let chunk = take (n - 1) (upto_newline inp) in Some (chunk, drop (length chunk) inp))"

subsection \<open>JSON output helpers\<close>

definition json_reset :: "glk_state \<Rightarrow> glk_state" where
  "json_reset s = s\<lparr>json_pos := 0, json_buffer := []\<rparr>"

text \<open>
  \<^verbatim>\<open>json_append\<close> with its format already expanded to \<open>text\<close>: \<^verbatim>\<open>vsnprintf\<close> stores
  what fits before the terminating NUL and returns the full length. Past the end of the
  buffer the size argument would be negative, which C does not define.
\<close>

definition json_append :: "string \<Rightarrow> glk_state \<Rightarrow> glk_state option" where
  "json_append text s =
     (if json_pos s \<le> 65536
      then Some (s\<lparr>json_buffer := json_buffer s @ take (65536 - json_pos s - 1) text,
                   json_pos := json_pos s + length text\<rparr>)
      else None)"

definition json_flush :: "glk_state \<Rightarrow> glk_state" where
  "json_flush s =
     (if json_pos s > 0 then json_reset (s\<lparr>io := io s @ [Put_line (json_buffer s)]\<rparr>) else s)"

definition escape_char :: "char \<Rightarrow> string" where
  "escape_char c =
     (if c = CHR 0x22 then [CHR 0x5C, CHR 0x22]
      else if c = CHR 0x5C then [CHR 0x5C, CHR 0x5C]
      else if c = CHR 0x0A then [CHR 0x5C, CHR ''n'']
      else if c = CHR 0x0D then [CHR 0x5C, CHR ''r'']
      else if c = CHR 0x09 then [CHR 0x5C, CHR ''t'']
      else if (of_char c :: nat) < 32 then [CHR 0x5C, CHR ''u''] @ fmt_04x c
      else [c])"

fun json_append_escaped_chars :: "string \<Rightarrow> glk_state \<Rightarrow> glk_state option" where
  "json_append_escaped_chars [] s = Some s"
| "json_append_escaped_chars (c # cs) s =
     do { s1 \<leftarrow> json_append (escape_char c) s; json_append_escaped_chars cs s1 }"

definition json_append_escaped_string :: "string \<Rightarrow> glk_state \<Rightarrow> glk_state option" where
  "json_append_escaped_string cs s =
     do { s1 \<leftarrow> json_append [CHR 0x22] s;
          s2 \<leftarrow> json_append_escaped_chars (c_string cs) s1;
          json_append [CHR 0x22] s2 }"

subsection \<open>Core functions\<close>

definition exit_frame :: string where
  "exit_frame = ''{\"type\":\"exit\"}''"

definition glk_exit :: "glk_state \<Rightarrow> glk_state option" where
  "glk_exit s =
     do { s1 \<leftarrow> json_append exit_frame (json_reset s);
          Some ((json_flush s1)\<lparr>exited := True\<rparr>) }"

text \<open>
  The capability query. The output array \<^verbatim>\<open>arr\<close> is a pointer to an array of
  32-bit numbers of the caller.
\<close>

definition store_uni :: "addr \<Rightarrow> nat \<Rightarrow> glui32 \<Rightarrow> glk_state \<Rightarrow> glk_state option" where
  "store_uni b i v s =
     do { arr \<leftarrow> mem_uni s b;
          if i < length arr then Some (s\<lparr>mem_uni := (mem_uni s)(b \<mapsto> arr[i := v])\<rparr>) else None }"

definition glk_gestalt_ext ::
  "glk_h \<Rightarrow> gestalt \<Rightarrow> glui32 \<Rightarrow> ptr \<Rightarrow> glui32 \<Rightarrow> glk_state \<Rightarrow> (glui32 \<times> glk_state) option"
where
  "glk_gestalt_ext K sel val arr arrlen s =
     (case sel of
        gestalt_Version \<Rightarrow> Some (0x00000706, s)
      | gestalt_CharInput \<Rightarrow>
          if val \<le> 0x7F \<or> (val \<ge> 0xA0 \<and> val \<le> 0xFF) then Some (1, s)
          else if uint val \<ge> 0x100000000 - uint (keycode_MAXVAL K) then Some (1, s)
          else Some (0, s)
      | gestalt_LineInput \<Rightarrow>
          if val \<le> 0x7F \<or> (val \<ge> 0xA0 \<and> val \<le> 0xFF) then Some (1, s)
          else Some (0, s)
      | gestalt_CharOutput \<Rightarrow>
          if val \<le> 0x7F \<or> (val \<ge> 0xA0 \<and> val \<le> 0xFF) then
            do { s1 \<leftarrow> (if arr \<noteq> None \<and> arrlen \<ge> 1 then store_uni (the arr) 0 1 s else Some s);
                 Some (gestalt_CharOutput_ExactPrint K, s1) }
          else
            do { s1 \<leftarrow> (if arr \<noteq> None \<and> arrlen \<ge> 1 then store_uni (the arr) 0 0 s else Some s);
                 Some (gestalt_CharOutput_CannotPrint K, s1) }
      | gestalt_Unicode \<Rightarrow> Some (1, s)
      | gestalt_UnicodeNorm \<Rightarrow> Some (1, s)
      | gestalt_Timer \<Rightarrow> Some (0, s)
      | gestalt_Graphics \<Rightarrow> Some (0, s)
      | gestalt_DrawImage \<Rightarrow> Some (0, s)
      | gestalt_GraphicsTransparency \<Rightarrow> Some (0, s)
      | gestalt_GraphicsCharInput \<Rightarrow> Some (0, s)
      | gestalt_DrawImageScale \<Rightarrow> Some (0, s)
      | gestalt_Sound \<Rightarrow> Some (0, s)
      | gestalt_SoundVolume \<Rightarrow> Some (0, s)
      | gestalt_SoundNotify \<Rightarrow> Some (0, s)
      | gestalt_SoundMusic \<Rightarrow> Some (0, s)
      | gestalt_Sound2 \<Rightarrow> Some (0, s)
      | gestalt_Hyperlinks \<Rightarrow> Some (1, s)
      | gestalt_HyperlinkInput \<Rightarrow> Some (1, s)
      | gestalt_MouseInput \<Rightarrow> Some (0, s)
      | gestalt_DateTime \<Rightarrow> Some (1, s)
      | gestalt_LineInputEcho \<Rightarrow> Some (1, s)
      | gestalt_LineTerminators \<Rightarrow> Some (1, s)
      | gestalt_LineTerminatorKey \<Rightarrow> Some (0, s)
      | gestalt_ResourceStream \<Rightarrow> Some (1, s)
      | gestalt_other \<Rightarrow> Some (0, s))"

definition glk_gestalt :: "glk_h \<Rightarrow> gestalt \<Rightarrow> glui32 \<Rightarrow> glk_state \<Rightarrow> (glui32 \<times> glk_state) option" where
  "glk_gestalt K sel val s = glk_gestalt_ext K sel val None 0 s"

subsection \<open>C library: files\<close>

text \<open>
  The byte operations on an open \<^verbatim>\<open>FILE\<close>, as far as the adapter uses them. A write
  stores at the offset, filling a gap behind the end with NUL bytes, and in a file
  opened for appending at the end of the file, wherever the offset is; a read at the
  end returns \<^verbatim>\<open>EOF\<close>, which is \<open>-1\<close>; a seek to a negative offset fails and moves
  nothing.
\<close>

definition fputc :: "char \<Rightarrow> addr \<Rightarrow> glk_state \<Rightarrow> glk_state option" where
  "fputc c fa s =
     do { f \<leftarrow> files s fa;
          let off = (if f_append f then length (f_bytes f) else f_off f);
          let padded = f_bytes f @ replicate (off - length (f_bytes f)) NUL;
          Some (s\<lparr>files := (files s)(fa \<mapsto>
                  f\<lparr>f_bytes := take off padded @ [c] @ drop (Suc off) padded,
                    f_off := Suc off\<rparr>)\<rparr>) }"

definition fgetc :: "addr \<Rightarrow> glk_state \<Rightarrow> (glsi32 \<times> glk_state) option" where
  "fgetc fa s =
     do { f \<leftarrow> files s fa;
          if f_off f < length (f_bytes f)
          then Some (of_char (f_bytes f ! f_off f), s\<lparr>files := (files s)(fa \<mapsto> f\<lparr>f_off := Suc (f_off f)\<rparr>)\<rparr>)
          else Some (- 1, s) }"

definition fseek :: "addr \<Rightarrow> glsi32 \<Rightarrow> seekmode \<Rightarrow> glk_state \<Rightarrow> glk_state option" where
  "fseek fa pos whence s =
     do { f \<leftarrow> files s fa;
          let base = (case whence of seekmode_Current \<Rightarrow> int (f_off f)
                                   | seekmode_End \<Rightarrow> int (length (f_bytes f))
                                   | _ \<Rightarrow> 0);
              target = base + sint pos in
          if target < 0 then Some s
          else Some (s\<lparr>files := (files s)(fa \<mapsto> f\<lparr>f_off := nat target\<rparr>)\<rparr>) }"

definition ftell :: "addr \<Rightarrow> glk_state \<Rightarrow> glui32 option" where
  "ftell fa s = do { f \<leftarrow> files s fa; Some (of_nat (f_off f)) }"

definition fclose :: "addr \<Rightarrow> glk_state \<Rightarrow> glk_state option" where
  "fclose fa s = do { f \<leftarrow> files s fa; Some (s\<lparr>files := (files s)(fa := None)\<rparr>) }"

subsection \<open>Stream functions\<close>

definition store_char :: "addr \<Rightarrow> nat \<Rightarrow> char \<Rightarrow> glk_state \<Rightarrow> glk_state option" where
  "store_char b i c s =
     do { arr \<leftarrow> mem s b;
          if i < length arr then Some (s\<lparr>mem := (mem s)(b \<mapsto> arr[i := c])\<rparr>) else None }"

text \<open>An assignment to fields of the stream at address \<open>a\<close>.\<close>

definition upd_stream ::
  "addr \<Rightarrow> (glk_stream_struct \<Rightarrow> glk_stream_struct) \<Rightarrow> glk_state \<Rightarrow> glk_state option" where
  "upd_stream a f s = do { x \<leftarrow> streams s a; Some (s\<lparr>streams := (streams s)(a \<mapsto> f x)\<rparr>) }"

text \<open>The structure after \<^verbatim>\<open>memset(str, 0, sizeof ...)\<close>.\<close>

definition zero_stream :: glk_stream_struct where
  "zero_stream =
     \<lparr> str_magicnum = 0, str_rock = 0, str_id = 0, str_type = 0, readable = False,
       writable = False, buf = None, buf_uni = None, buflen = 0, bufptr = 0,
       is_unicode = False, str_file = None, str_win = None, readcount = 0, writecount = 0,
       str_prev = None, str_next = None \<rparr>"

text \<open>
  \<open>m\<close> is what \<^verbatim>\<open>malloc\<close> returns: \<open>None\<close> when it fails, else the address of the new
  block. \<^verbatim>\<open>malloc\<close> never returns the address of a block still allocated; the model
  has no result for such an \<open>m\<close>.
\<close>

definition gli_stream_new ::
  "nat \<Rightarrow> bool \<Rightarrow> bool \<Rightarrow> glui32 \<Rightarrow> ptr \<Rightarrow> glk_state \<Rightarrow> (ptr \<times> glk_state) option" where
  "gli_stream_new type rd wr rock m s =
     (case m of
        None \<Rightarrow> Some (None, s)
      | Some a \<Rightarrow>
          if a \<in> dom (streams s) then None
          else
            do { let s1 = s\<lparr>streams := (streams s)(a \<mapsto>
                              zero_stream\<lparr>str_magicnum := MAGIC_STREAM_NUM, str_rock := rock,
                                str_id := gli_stream_id_counter s, str_type := type,
                                readable := rd, writable := wr,
                                str_next := gli_streamlist s\<rparr>),
                            gli_stream_id_counter := gli_stream_id_counter s + 1\<rparr>;
                 s2 \<leftarrow> (case gli_streamlist s1 of
                          None \<Rightarrow> Some s1
                        | Some h \<Rightarrow> upd_stream h (\<lambda>x. x\<lparr>str_prev := Some a\<rparr>) s1);
                 Some (Some a, s2\<lparr>gli_streamlist := Some a\<rparr>) })"

definition gli_stream_open_window :: "ptr \<Rightarrow> ptr \<Rightarrow> glk_state \<Rightarrow> (ptr \<times> glk_state) option" where
  "gli_stream_open_window win m s =
     do { (str, s1) \<leftarrow> gli_stream_new 0 False True 0 m s;
          case str of
            None \<Rightarrow> Some (None, s1)
          | Some a \<Rightarrow> do { s2 \<leftarrow> upd_stream a (\<lambda>x. x\<lparr>str_win := win\<rparr>) s1; Some (str, s2) } }"

definition glk_stream_open_memory ::
  "ptr \<Rightarrow> glui32 \<Rightarrow> filemode \<Rightarrow> glui32 \<Rightarrow> ptr \<Rightarrow> glk_state \<Rightarrow> (ptr \<times> glk_state) option" where
  "glk_stream_open_memory bufp len fmode rock m s =
     do { let rd = (fmode = filemode_Read \<or> fmode = filemode_ReadWrite);
          let wr = (fmode = filemode_Write \<or> fmode = filemode_ReadWrite);
          (str, s1) \<leftarrow> gli_stream_new 1 rd wr rock m s;
          case str of
            None \<Rightarrow> Some (None, s1)
          | Some a \<Rightarrow>
              do { s2 \<leftarrow> upd_stream a (\<lambda>x. x\<lparr>buf := bufp, buflen := len, bufptr := 0,
                                              is_unicode := False\<rparr>) s1;
                   Some (str, s2) } }"

definition glk_stream_open_memory_uni ::
  "ptr \<Rightarrow> glui32 \<Rightarrow> filemode \<Rightarrow> glui32 \<Rightarrow> ptr \<Rightarrow> glk_state \<Rightarrow> (ptr \<times> glk_state) option" where
  "glk_stream_open_memory_uni bufp len fmode rock m s =
     do { let rd = (fmode = filemode_Read \<or> fmode = filemode_ReadWrite);
          let wr = (fmode = filemode_Write \<or> fmode = filemode_ReadWrite);
          (str, s1) \<leftarrow> gli_stream_new 1 rd wr rock m s;
          case str of
            None \<Rightarrow> Some (None, s1)
          | Some a \<Rightarrow>
              do { s2 \<leftarrow> upd_stream a (\<lambda>x. x\<lparr>buf_uni := bufp, buflen := len, bufptr := 0,
                                              is_unicode := True\<rparr>) s1;
                   Some (str, s2) } }"

text \<open>
  A result parameter (\<^verbatim>\<open>stream_result_t *result\<close>) is the caller's structure, \<open>None\<close>
  for \<^verbatim>\<open>NULL\<close>; the function returns it as it leaves it.
\<close>

definition glk_stream_close ::
  "ptr \<Rightarrow> stream_result_t option \<Rightarrow> glk_state \<Rightarrow> (stream_result_t option \<times> glk_state) option"
where
  "glk_stream_close str result s =
     (case str of
        None \<Rightarrow> Some (result, s)
      | Some a \<Rightarrow>
          do { st \<leftarrow> streams s a;
               let r = (if result \<noteq> None
                        then Some \<lparr>res_readcount = readcount st, res_writecount = writecount st\<rparr>
                        else None);
               s1 \<leftarrow> (case str_file st of
                        None \<Rightarrow> Some s
                      | Some fa \<Rightarrow> do { s' \<leftarrow> fclose fa s;
                                        upd_stream a (\<lambda>x. x\<lparr>str_file := None\<rparr>) s' });
               let s2 = (if gli_currentstr s1 = Some a then s1\<lparr>gli_currentstr := None\<rparr> else s1);
               s3 \<leftarrow> (case str_prev st of
                        Some p \<Rightarrow> upd_stream p (\<lambda>x. x\<lparr>str_next := str_next st\<rparr>) s2
                      | None \<Rightarrow> Some (s2\<lparr>gli_streamlist := str_next st\<rparr>));
               s4 \<leftarrow> (case str_next st of
                        Some n \<Rightarrow> upd_stream n (\<lambda>x. x\<lparr>str_prev := str_prev st\<rparr>) s3
                      | None \<Rightarrow> Some s3);
               Some (r, s4\<lparr>streams := (streams s4)(a := None)\<rparr>) })"

text \<open>
  \<^verbatim>\<open>glk_stream_iterate\<close>: the stream after \<open>str\<close>, the head of the list for \<^verbatim>\<open>NULL\<close>,
  with the rock of the stream found (what is stored through \<^verbatim>\<open>rockptr\<close>).
\<close>

definition glk_stream_iterate :: "ptr \<Rightarrow> glk_state \<Rightarrow> (ptr \<times> glui32 option) option" where
  "glk_stream_iterate str s =
     do { nxt \<leftarrow> (case str of
                    None \<Rightarrow> Some (gli_streamlist s)
                  | Some a \<Rightarrow> do { st \<leftarrow> streams s a; Some (str_next st) });
          case nxt of
            None \<Rightarrow> Some (None, None)
          | Some b \<Rightarrow> do { st \<leftarrow> streams s b; Some (nxt, Some (str_rock st)) } }"

definition glk_stream_get_rock :: "ptr \<Rightarrow> glk_state \<Rightarrow> glui32 option" where
  "glk_stream_get_rock str s =
     (case str of None \<Rightarrow> Some 0 | Some a \<Rightarrow> do { st \<leftarrow> streams s a; Some (str_rock st) })"

definition glk_stream_set_position :: "ptr \<Rightarrow> glsi32 \<Rightarrow> seekmode \<Rightarrow> glk_state \<Rightarrow> glk_state option" where
  "glk_stream_set_position str pos mode s =
     (case str of
        None \<Rightarrow> Some s
      | Some a \<Rightarrow>
          do { st \<leftarrow> streams s a;
               if str_type st = 2 \<and> str_file st \<noteq> None then fseek (the (str_file st)) pos mode s
               else if str_type st = 1 then
                 do { s1 \<leftarrow> (if mode = seekmode_Current
                             then upd_stream a (\<lambda>x. x\<lparr>bufptr := bufptr x + pos\<rparr>) s
                             else if mode = seekmode_End
                             then upd_stream a (\<lambda>x. x\<lparr>bufptr := buflen x + pos\<rparr>) s
                             else upd_stream a (\<lambda>x. x\<lparr>bufptr := pos\<rparr>) s);
                      upd_stream a (\<lambda>x. if bufptr x > buflen x then x\<lparr>bufptr := buflen x\<rparr> else x) s1 }
               else Some s })"

definition glk_stream_get_position :: "ptr \<Rightarrow> glk_state \<Rightarrow> glui32 option" where
  "glk_stream_get_position str s =
     (case str of
        None \<Rightarrow> Some 0
      | Some a \<Rightarrow>
          do { st \<leftarrow> streams s a;
               if str_type st = 2 \<and> str_file st \<noteq> None then ftell (the (str_file st)) s
               else if str_type st = 1 then Some (bufptr st)
               else Some 0 })"

definition glk_stream_set_current :: "ptr \<Rightarrow> glk_state \<Rightarrow> glk_state option" where
  "glk_stream_set_current str s = Some (s\<lparr>gli_currentstr := str\<rparr>)"

definition glk_stream_get_current :: "glk_state \<Rightarrow> ptr" where
  "glk_stream_get_current s = gli_currentstr s"

subsection \<open>Output functions\<close>

definition text_frame_head :: "glui32 \<Rightarrow> string" where
  "text_frame_head n = ''{\"type\":\"update\",\"content\":[{\"id\":'' @ fmt_u n @ '',\"text\":''"

definition gli_put_char_to_stream :: "ptr \<Rightarrow> char \<Rightarrow> glk_state \<Rightarrow> glk_state option" where
  "gli_put_char_to_stream str ch s =
     (case str of
        None \<Rightarrow> Some s
      | Some a \<Rightarrow>
          do { st \<leftarrow> streams s a;
               if \<not> writable st then Some s
               else
                 do { s1 \<leftarrow> upd_stream a (\<lambda>x. x\<lparr>writecount := writecount x + 1\<rparr>) s;
                      if str_type st = 0 \<and> str_win st \<noteq> None then
                        do { w \<leftarrow> windows s1 (the (str_win st));
                             s2 \<leftarrow> json_append (text_frame_head (win_id w)) (json_reset s1);
                             s3 \<leftarrow> json_append_escaped_string [ch, NUL] s2;
                             s4 \<leftarrow> json_append ''}]}'' s3;
                             Some (json_flush s4) }
                      else if str_type st = 1 \<and> buf st \<noteq> None then
                        (if bufptr st < buflen st then
                           do { s2 \<leftarrow> store_char (the (buf st)) (unat (bufptr st)) ch s1;
                                upd_stream a (\<lambda>x. x\<lparr>bufptr := bufptr x + 1\<rparr>) s2 }
                         else Some s1)
                      else if str_type st = 2 \<and> str_file st \<noteq> None then
                        fputc ch (the (str_file st)) s1
                      else Some s1 } })"

definition glk_put_char :: "char \<Rightarrow> glk_state \<Rightarrow> glk_state option" where
  "glk_put_char ch s = gli_put_char_to_stream (gli_currentstr s) ch s"

definition glk_put_char_stream :: "ptr \<Rightarrow> char \<Rightarrow> glk_state \<Rightarrow> glk_state option" where
  "glk_put_char_stream str ch s = gli_put_char_to_stream str ch s"

text \<open>The loops of the string and buffer writers: one call per character, in order.\<close>

fun put_chars :: "ptr \<Rightarrow> string \<Rightarrow> glk_state \<Rightarrow> glk_state option" where
  "put_chars str [] s = Some s"
| "put_chars str (c # cs) s = do { s1 \<leftarrow> gli_put_char_to_stream str c s; put_chars str cs s1 }"

text \<open>
  A string or buffer argument is the caller's array, \<open>None\<close> for \<^verbatim>\<open>NULL\<close>. A string is
  read up to its first NUL; an array without one is read past its end.
\<close>

definition glk_put_string_stream :: "ptr \<Rightarrow> string option \<Rightarrow> glk_state \<Rightarrow> glk_state option" where
  "glk_put_string_stream str sp s =
     (case sp of
        None \<Rightarrow> Some s
      | Some cs \<Rightarrow> if NUL \<in> set cs then put_chars str (c_string cs) s else None)"

definition glk_put_string :: "string option \<Rightarrow> glk_state \<Rightarrow> glk_state option" where
  "glk_put_string sp s = glk_put_string_stream (gli_currentstr s) sp s"

definition glk_put_buffer_stream ::
  "ptr \<Rightarrow> string option \<Rightarrow> glui32 \<Rightarrow> glk_state \<Rightarrow> glk_state option" where
  "glk_put_buffer_stream str bp len s =
     (case bp of
        None \<Rightarrow> Some s
      | Some cs \<Rightarrow> if unat len \<le> length cs then put_chars str (take (unat len) cs) s else None)"

definition glk_put_buffer :: "string option \<Rightarrow> glui32 \<Rightarrow> glk_state \<Rightarrow> glk_state option" where
  "glk_put_buffer bp len s = glk_put_buffer_stream (gli_currentstr s) bp len s"

subsection \<open>Input functions\<close>

definition glk_get_char_stream :: "ptr \<Rightarrow> glk_state \<Rightarrow> (glsi32 \<times> glk_state) option" where
  "glk_get_char_stream str s =
     (case str of
        None \<Rightarrow> Some (- 1, s)
      | Some a \<Rightarrow>
          do { st \<leftarrow> streams s a;
               if \<not> readable st then Some (- 1, s)
               else
                 do { s1 \<leftarrow> upd_stream a (\<lambda>x. x\<lparr>readcount := readcount x + 1\<rparr>) s;
                      if str_type st = 1 \<and> buf st \<noteq> None then
                        (if bufptr st < buflen st then
                           do { arr \<leftarrow> mem s1 (the (buf st));
                                if unat (bufptr st) < length arr then
                                  do { s2 \<leftarrow> upd_stream a (\<lambda>x. x\<lparr>bufptr := bufptr x + 1\<rparr>) s1;
                                       Some (of_char (arr ! unat (bufptr st)), s2) }
                                else None }
                         else Some (- 1, s1))
                      else if str_type st = 2 \<and> str_file st \<noteq> None then
                        fgetc (the (str_file st)) s1
                      else Some (- 1, s1) } })"

subsection \<open>Window functions\<close>

definition upd_window ::
  "addr \<Rightarrow> (glk_window_struct \<Rightarrow> glk_window_struct) \<Rightarrow> glk_state \<Rightarrow> glk_state option" where
  "upd_window a f s = do { x \<leftarrow> windows s a; Some (s\<lparr>windows := (windows s)(a \<mapsto> f x)\<rparr>) }"

definition zero_window :: glk_window_struct where
  "zero_window =
     \<lparr> win_magicnum = 0, win_rock = 0, win_type = 0, win_id = 0, char_request = False,
       line_request = False, char_request_uni = False, line_request_uni = False,
       line_buffer = None, line_buffer_uni = None, line_buflen = 0, win_str = None,
       echostr = None, parent = None, child1 = None, child2 = None,
       win_prev = None, win_next = None \<rparr>"

definition glk_window_get_root :: "glk_state \<Rightarrow> ptr" where
  "glk_window_get_root s = gli_rootwin s"

definition create_frame :: "glui32 \<Rightarrow> glui32 \<Rightarrow> string" where
  "create_frame n wintype =
     ''{\"type\":\"update\",\"content\":[{\"id\":'' @ fmt_u n @ '',\"win\":'' @ fmt_u n
       @ '',\"op\":\"create\",\"wintype\":'' @ fmt_u wintype @ ''}]}''"

text \<open>
  \<open>mw\<close> is the result of the \<^verbatim>\<open>malloc\<close> for the window, \<open>ms\<close> of the one for its
  stream.
\<close>

definition glk_window_open ::
  "ptr \<Rightarrow> glui32 \<Rightarrow> glui32 \<Rightarrow> glui32 \<Rightarrow> glui32 \<Rightarrow> ptr \<Rightarrow> ptr \<Rightarrow> glk_state
     \<Rightarrow> (ptr \<times> glk_state) option" where
  "glk_window_open split method sz wintype rock mw ms s =
     (case mw of
        None \<Rightarrow> Some (None, s)
      | Some a \<Rightarrow>
          if a \<in> dom (windows s) then None
          else
            do { let s1 = s\<lparr>windows := (windows s)(a \<mapsto>
                              zero_window\<lparr>win_magicnum := MAGIC_WINDOW_NUM, win_rock := rock,
                                win_type := wintype, win_id := gli_window_id_counter s,
                                win_next := gli_windowlist s\<rparr>),
                            gli_window_id_counter := gli_window_id_counter s + 1\<rparr>;
                 s2 \<leftarrow> (case gli_windowlist s1 of
                          None \<Rightarrow> Some s1
                        | Some h \<Rightarrow> upd_window h (\<lambda>x. x\<lparr>win_prev := Some a\<rparr>) s1);
                 let s3 = s2\<lparr>gli_windowlist := Some a\<rparr>;
                 (str, s4) \<leftarrow> gli_stream_open_window (Some a) ms s3;
                 s5 \<leftarrow> upd_window a (\<lambda>x. x\<lparr>win_str := str\<rparr>) s4;
                 let s6 = (if gli_rootwin s5 = None then s5\<lparr>gli_rootwin := Some a\<rparr> else s5);
                 w \<leftarrow> windows s6 a;
                 s7 \<leftarrow> json_append (create_frame (win_id w) wintype) (json_reset s6);
                 Some (Some a, json_flush s7) })"

definition glk_window_close ::
  "ptr \<Rightarrow> stream_result_t option \<Rightarrow> glk_state \<Rightarrow> (stream_result_t option \<times> glk_state) option"
where
  "glk_window_close win result s =
     (case win of
        None \<Rightarrow> Some (result, s)
      | Some a \<Rightarrow>
          do { w \<leftarrow> windows s a;
               r \<leftarrow> (if result \<noteq> None then
                        (case win_str w of
                           None \<Rightarrow> Some (Some \<lparr>res_readcount = 0, res_writecount = 0\<rparr>)
                         | Some sa \<Rightarrow>
                             do { st \<leftarrow> streams s sa;
                                  Some (Some \<lparr>res_readcount = readcount st,
                                              res_writecount = writecount st\<rparr>) })
                      else Some None);
               s1 \<leftarrow> (case win_str w of
                        None \<Rightarrow> Some s
                      | Some sa \<Rightarrow>
                          do { s' \<leftarrow> upd_stream sa (\<lambda>x. x\<lparr>str_win := None\<rparr>) s;
                               (_, s'') \<leftarrow> glk_stream_close (Some sa) None s';
                               upd_window a (\<lambda>x. x\<lparr>win_str := None\<rparr>) s'' });
               s2 \<leftarrow> (case win_prev w of
                        Some p \<Rightarrow> upd_window p (\<lambda>x. x\<lparr>win_next := win_next w\<rparr>) s1
                      | None \<Rightarrow> Some (s1\<lparr>gli_windowlist := win_next w\<rparr>));
               s3 \<leftarrow> (case win_next w of
                        Some n \<Rightarrow> upd_window n (\<lambda>x. x\<lparr>win_prev := win_prev w\<rparr>) s2
                      | None \<Rightarrow> Some s2);
               let s4 = (if gli_rootwin s3 = Some a then s3\<lparr>gli_rootwin := None\<rparr> else s3);
               Some (r, s4\<lparr>windows := (windows s4)(a := None)\<rparr>) })"

definition glk_window_iterate :: "ptr \<Rightarrow> glk_state \<Rightarrow> (ptr \<times> glui32 option) option" where
  "glk_window_iterate win s =
     do { nxt \<leftarrow> (case win of
                    None \<Rightarrow> Some (gli_windowlist s)
                  | Some a \<Rightarrow> do { w \<leftarrow> windows s a; Some (win_next w) });
          case nxt of
            None \<Rightarrow> Some (None, None)
          | Some b \<Rightarrow> do { w \<leftarrow> windows s b; Some (nxt, Some (win_rock w)) } }"

definition clear_frame :: "glui32 \<Rightarrow> string" where
  "clear_frame n = ''{\"type\":\"update\",\"content\":[{\"id\":'' @ fmt_u n @ '',\"op\":\"clear\"}]}''"

definition glk_window_clear :: "ptr \<Rightarrow> glk_state \<Rightarrow> glk_state option" where
  "glk_window_clear win s =
     (case win of
        None \<Rightarrow> Some s
      | Some a \<Rightarrow>
          do { w \<leftarrow> windows s a;
               s1 \<leftarrow> json_append (clear_frame (win_id w)) (json_reset s);
               Some (json_flush s1) })"

definition glk_window_get_stream :: "ptr \<Rightarrow> glk_state \<Rightarrow> ptr option" where
  "glk_window_get_stream win s =
     (case win of None \<Rightarrow> Some None | Some a \<Rightarrow> do { w \<leftarrow> windows s a; Some (win_str w) })"

definition glk_window_set_echo_stream :: "ptr \<Rightarrow> ptr \<Rightarrow> glk_state \<Rightarrow> glk_state option" where
  "glk_window_set_echo_stream win str s =
     (case win of None \<Rightarrow> Some s | Some a \<Rightarrow> upd_window a (\<lambda>x. x\<lparr>echostr := str\<rparr>) s)"

definition glk_set_window :: "ptr \<Rightarrow> glk_state \<Rightarrow> glk_state option" where
  "glk_set_window win s =
     (case win of
        None \<Rightarrow> Some (s\<lparr>gli_currentstr := None\<rparr>)
      | Some a \<Rightarrow> do { w \<leftarrow> windows s a; Some (s\<lparr>gli_currentstr := win_str w\<rparr>) })"

subsection \<open>File reference functions\<close>

definition upd_fileref ::
  "addr \<Rightarrow> (glk_fileref_struct \<Rightarrow> glk_fileref_struct) \<Rightarrow> glk_state \<Rightarrow> glk_state option" where
  "upd_fileref a f s = do { x \<leftarrow> filerefs s a; Some (s\<lparr>filerefs := (filerefs s)(a \<mapsto> f x)\<rparr>) }"

definition zero_fileref :: glk_fileref_struct where
  "zero_fileref =
     \<lparr> fref_magicnum = 0, fref_rock = 0, fref_id = 0, filename = [], usage = 0,
       textmode = False, fref_prev = None, fref_next = None \<rparr>"

text \<open>
  \<open>m\<close> is the result of the \<^verbatim>\<open>malloc\<close> for the structure; \<open>dup_ok\<close> tells whether
  \<^verbatim>\<open>strdup\<close> succeeds. The name is a C string.
\<close>

definition gli_fileref_new ::
  "glk_h \<Rightarrow> string \<Rightarrow> glui32 \<Rightarrow> glui32 \<Rightarrow> ptr \<Rightarrow> bool \<Rightarrow> glk_state \<Rightarrow> (ptr \<times> glk_state) option"
where
  "gli_fileref_new K name usg rock m dup_ok s =
     (case m of
        None \<Rightarrow> Some (None, s)
      | Some a \<Rightarrow>
          if a \<in> dom (filerefs s) then None
          else
            do { let fref = zero_fileref\<lparr>fref_magicnum := MAGIC_FILEREF_NUM, fref_rock := rock,
                              fref_id := gli_fileref_id_counter s, usage := usg,
                              textmode := (usg AND fileusage_TextMode K \<noteq> 0)\<rparr>;
                 let s1 = s\<lparr>gli_fileref_id_counter := gli_fileref_id_counter s + 1\<rparr>;
                 if \<not> dup_ok then Some (None, s1)
                 else
                   do { let s2 = s1\<lparr>filerefs := (filerefs s1)(a \<mapsto>
                                     fref\<lparr>filename := name, fref_next := gli_filereflist s1\<rparr>)\<rparr>;
                        s3 \<leftarrow> (case gli_filereflist s2 of
                                 None \<Rightarrow> Some s2
                               | Some h \<Rightarrow> upd_fileref h (\<lambda>x. x\<lparr>fref_prev := Some a\<rparr>) s2);
                        Some (Some a, s3\<lparr>gli_filereflist := Some a\<rparr>) } })"

definition glk_fileref_create_temp ::
  "glk_h \<Rightarrow> glui32 \<Rightarrow> glui32 \<Rightarrow> ptr \<Rightarrow> bool \<Rightarrow> glk_state \<Rightarrow> (ptr \<times> glk_state) option" where
  "glk_fileref_create_temp K usg rock m dup_ok s =
     gli_fileref_new K (take 63 (''/tmp/glktmp_'' @ fmt_u (gli_fileref_id_counter s))) usg rock m dup_ok s"

definition glk_fileref_create_by_name ::
  "glk_h \<Rightarrow> glui32 \<Rightarrow> string option \<Rightarrow> glui32 \<Rightarrow> ptr \<Rightarrow> bool \<Rightarrow> glk_state
     \<Rightarrow> (ptr \<times> glk_state) option" where
  "glk_fileref_create_by_name K usg name rock m dup_ok s =
     (case name of
        None \<Rightarrow> Some (None, s)
      | Some cs \<Rightarrow> if NUL \<in> set cs then gli_fileref_new K (c_string cs) usg rock m dup_ok s else None)"

definition prompt_frame :: "glui32 \<Rightarrow> glui32 \<Rightarrow> string" where
  "prompt_frame usg fmode =
     ''{\"type\":\"fileref_prompt\",\"usage\":'' @ fmt_u usg @ '',\"fmode\":'' @ fmt_u fmode @ ''}''"

text \<open>
  The newline is removed from the chunk read when it is the last byte before the first
  NUL; the file name is the C string left in the array.
\<close>

definition strip_newline :: "string \<Rightarrow> string" where
  "strip_newline chunk =
     (let n = strlen chunk in
      if n > 0 \<and> chunk ! (n - 1) = newline then take (n - 1) chunk else c_string chunk)"

definition glk_fileref_create_by_prompt ::
  "glk_h \<Rightarrow> glui32 \<Rightarrow> glui32 \<Rightarrow> glui32 \<Rightarrow> ptr \<Rightarrow> bool \<Rightarrow> glk_state \<Rightarrow> (ptr \<times> glk_state) option"
where
  "glk_fileref_create_by_prompt K usg fmode rock m dup_ok s =
     do { s1 \<leftarrow> json_append (prompt_frame usg fmode) (json_reset s);
          let s2 = json_flush s1;
          case fgets 256 (stdin s2) of
            Some (chunk, rest) \<Rightarrow>
              gli_fileref_new K (strip_newline chunk) usg rock m dup_ok
                (s2\<lparr>stdin := rest, io := io s2 @ [Get_line chunk]\<rparr>)
          | None \<Rightarrow> Some (None, s2\<lparr>io := io s2 @ [Get_eof]\<rparr>) }"

definition glk_fileref_create_from_fileref ::
  "glk_h \<Rightarrow> glui32 \<Rightarrow> ptr \<Rightarrow> glui32 \<Rightarrow> ptr \<Rightarrow> bool \<Rightarrow> glk_state \<Rightarrow> (ptr \<times> glk_state) option"
where
  "glk_fileref_create_from_fileref K usg fref rock m dup_ok s =
     (case fref of
        None \<Rightarrow> Some (None, s)
      | Some a \<Rightarrow> do { f \<leftarrow> filerefs s a; gli_fileref_new K (filename f) usg rock m dup_ok s })"

definition glk_fileref_destroy :: "ptr \<Rightarrow> glk_state \<Rightarrow> glk_state option" where
  "glk_fileref_destroy fref s =
     (case fref of
        None \<Rightarrow> Some s
      | Some a \<Rightarrow>
          do { f \<leftarrow> filerefs s a;
               s1 \<leftarrow> (case fref_prev f of
                        Some p \<Rightarrow> upd_fileref p (\<lambda>x. x\<lparr>fref_next := fref_next f\<rparr>) s
                      | None \<Rightarrow> Some (s\<lparr>gli_filereflist := fref_next f\<rparr>));
               s2 \<leftarrow> (case fref_next f of
                        Some n \<Rightarrow> upd_fileref n (\<lambda>x. x\<lparr>fref_prev := fref_prev f\<rparr>) s1
                      | None \<Rightarrow> Some s1);
               Some (s2\<lparr>filerefs := (filerefs s2)(a := None)\<rparr>) })"

definition glk_fileref_iterate :: "ptr \<Rightarrow> glk_state \<Rightarrow> (ptr \<times> glui32 option) option" where
  "glk_fileref_iterate fref s =
     do { nxt \<leftarrow> (case fref of
                    None \<Rightarrow> Some (gli_filereflist s)
                  | Some a \<Rightarrow> do { f \<leftarrow> filerefs s a; Some (fref_next f) });
          case nxt of
            None \<Rightarrow> Some (None, None)
          | Some b \<Rightarrow> do { f \<leftarrow> filerefs s b; Some (nxt, Some (fref_rock f)) } }"

text \<open>
  \<open>fo\<close> is the result of \<^verbatim>\<open>fopen\<close>: \<open>None\<close> when it fails, else the address of the
  new \<^verbatim>\<open>FILE\<close> and the file as opened (its bytes and offset); it appends when the
  mode string is \<^verbatim>\<open>a\<close> or \<^verbatim>\<open>ab\<close>, the one of \<^verbatim>\<open>filemode_WriteAppend\<close>. \<open>m\<close> is the
  result of \<^verbatim>\<open>malloc\<close>.
\<close>

definition glk_stream_open_file ::
  "ptr \<Rightarrow> filemode \<Rightarrow> glui32 \<Rightarrow> (addr \<times> stdio_file) option \<Rightarrow> ptr \<Rightarrow> glk_state
     \<Rightarrow> (ptr \<times> glk_state) option" where
  "glk_stream_open_file fileref fmode rock fo m s =
     (case fileref of
        None \<Rightarrow> Some (None, s)
      | Some fr \<Rightarrow>
          do { f \<leftarrow> filerefs s fr;
               if fmode = filemode_other then Some (None, s)
               else
                 do { let rd = (fmode = filemode_Read \<or> fmode = filemode_ReadWrite);
                      let wr = (fmode \<noteq> filemode_Read);
                      case fo of
                        None \<Rightarrow> Some (None, s)
                      | Some (h, fobj) \<Rightarrow>
                          if h \<in> dom (files s) then None
                          else
                            do { let file = fobj\<lparr>f_append := (fmode = filemode_WriteAppend)\<rparr>;
                                 (str, s1) \<leftarrow> gli_stream_new 2 rd wr rock m
                                               (s\<lparr>files := (files s)(h \<mapsto> file)\<rparr>);
                                 case str of
                                   None \<Rightarrow> do { s2 \<leftarrow> fclose h s1; Some (None, s2) }
                                 | Some a \<Rightarrow>
                                     do { s2 \<leftarrow> upd_stream a (\<lambda>x. x\<lparr>str_file := Some h\<rparr>) s1;
                                          Some (str, s2) } } } })"

subsection \<open>Event functions\<close>

text \<open>
  The scan of \<^verbatim>\<open>glk_select\<close> for a window with an input request, along the
  \<^verbatim>\<open>next\<close> pointers. It has no result on a list that runs into a freed window or
  into a cycle.
\<close>

partial_function (option) find_request :: "(addr \<rightharpoonup> glk_window_struct) \<Rightarrow> ptr \<Rightarrow> ptr option" where
  "find_request ws win =
     (case win of
        None \<Rightarrow> Some None
      | Some a \<Rightarrow>
          (case ws a of
             None \<Rightarrow> None
           | Some w \<Rightarrow>
               if char_request w \<or> line_request w \<or> char_request_uni w \<or> line_request_uni w
               then Some (Some a)
               else find_request ws (win_next w)))"

definition input_frame :: "glui32 \<Rightarrow> string \<Rightarrow> string" where
  "input_frame n kind =
     ''{\"type\":\"input\",\"gen\":1,\"windows\":[{\"id\":'' @ fmt_u n @ '',\"type\":\"'' @ kind @ ''\"}]}''"

definition memcpy :: "addr \<Rightarrow> string \<Rightarrow> glk_state \<Rightarrow> glk_state option" where
  "memcpy b bytes s =
     do { arr \<leftarrow> mem s b;
          if length bytes \<le> length arr
          then Some (s\<lparr>mem := (mem s)(b \<mapsto> bytes @ drop (length bytes) arr)\<rparr>)
          else None }"

definition no_event :: event_t where
  "no_event = \<lparr> ev_type = evtype_None, ev_win = None, val1 = 0, val2 = 0 \<rparr>"

text \<open>
  An event parameter is the caller's structure, \<open>None\<close> for \<^verbatim>\<open>NULL\<close>; the function
  returns it as it leaves it. After \<^verbatim>\<open>glk_exit\<close> the process is gone and nothing
  more of the function runs.
\<close>

definition glk_select ::
  "glk_h \<Rightarrow> event_t option \<Rightarrow> glk_state \<Rightarrow> (event_t option \<times> glk_state) option" where
  "glk_select K event s =
     (case event of
        None \<Rightarrow> Some (None, s)
      | Some _ \<Rightarrow>
          do { found \<leftarrow> find_request (windows s) (gli_windowlist s);
               case found of
                 None \<Rightarrow> Some (Some no_event, s)
               | Some a \<Rightarrow>
                   do { w \<leftarrow> windows s a;
                        s1 \<leftarrow> json_append
                                (input_frame (win_id w)
                                   (if line_request w \<or> line_request_uni w then ''line'' else ''char''))
                                (json_reset s);
                        let s2 = json_flush s1;
                        case fgets 1024 (stdin s2) of
                          None \<Rightarrow>
                            do { s3 \<leftarrow> glk_exit (s2\<lparr>io := io s2 @ [Get_eof]\<rparr>);
                                 Some (Some no_event, s3) }
                        | Some (chunk, rest) \<Rightarrow>
                            do { let s3 = s2\<lparr>stdin := rest, io := io s2 @ [Get_line chunk]\<rparr>;
                                 let input = strip_newline chunk;
                                 let len = length input;
                                 if line_request w then
                                   do { (ev, s4) \<leftarrow>
                                          (case line_buffer w of
                                             None \<Rightarrow> Some (no_event, s3)
                                           | Some b \<Rightarrow>
                                               do { let copylen =
                                                      (if (of_nat len :: glui32) > line_buflen w - 1
                                                       then line_buflen w - 1 else of_nat len);
                                                    s' \<leftarrow> memcpy b (take (unat copylen) input) s3;
                                                    s'' \<leftarrow> store_char b (unat copylen) NUL s';
                                                    Some (no_event\<lparr>ev_type := evtype_LineInput,
                                                            ev_win := Some a, val1 := copylen\<rparr>, s'') });
                                        s5 \<leftarrow> upd_window a
                                                (\<lambda>x. x\<lparr>line_request := False, line_buffer := None\<rparr>) s4;
                                        Some (Some ev, s5) }
                                 else if char_request w then
                                   do { let ev = no_event\<lparr>ev_type := evtype_CharInput, ev_win := Some a,
                                                   val1 := (if len > 0 then of_char (input ! 0)
                                                            else keycode_Return K)\<rparr>;
                                        s4 \<leftarrow> upd_window a (\<lambda>x. x\<lparr>char_request := False\<rparr>) s3;
                                        Some (Some ev, s4) }
                                 else Some (Some no_event, s3) } } })"

definition glk_select_poll :: "event_t option \<Rightarrow> glk_state \<Rightarrow> (event_t option \<times> glk_state) option" where
  "glk_select_poll event s =
     (case event of None \<Rightarrow> Some (None, s) | Some _ \<Rightarrow> Some (Some no_event, s))"

definition glk_request_line_event ::
  "ptr \<Rightarrow> ptr \<Rightarrow> glui32 \<Rightarrow> glui32 \<Rightarrow> glk_state \<Rightarrow> glk_state option" where
  "glk_request_line_event win bufp maxlen initlen s =
     (case win of
        None \<Rightarrow> Some s
      | Some a \<Rightarrow> upd_window a (\<lambda>x. x\<lparr>line_request := True, line_buffer := bufp,
                                        line_buflen := maxlen\<rparr>) s)"

definition glk_request_char_event :: "ptr \<Rightarrow> glk_state \<Rightarrow> glk_state option" where
  "glk_request_char_event win s =
     (case win of None \<Rightarrow> Some s | Some a \<Rightarrow> upd_window a (\<lambda>x. x\<lparr>char_request := True\<rparr>) s)"

definition glk_cancel_line_event ::
  "ptr \<Rightarrow> event_t option \<Rightarrow> glk_state \<Rightarrow> (event_t option \<times> glk_state) option" where
  "glk_cancel_line_event win event s =
     (case win of
        None \<Rightarrow> Some (event, s)
      | Some a \<Rightarrow>
          do { s1 \<leftarrow> upd_window a (\<lambda>x. x\<lparr>line_request := False, line_buffer := None\<rparr>) s;
               Some (if event \<noteq> None then Some no_event else None, s1) })"

definition glk_cancel_char_event :: "ptr \<Rightarrow> glk_state \<Rightarrow> glk_state option" where
  "glk_cancel_char_event win s =
     (case win of None \<Rightarrow> Some s | Some a \<Rightarrow> upd_window a (\<lambda>x. x\<lparr>char_request := False\<rparr>) s)"

definition glk_request_char_event_uni :: "ptr \<Rightarrow> glk_state \<Rightarrow> glk_state option" where
  "glk_request_char_event_uni win s =
     (case win of None \<Rightarrow> Some s | Some a \<Rightarrow> upd_window a (\<lambda>x. x\<lparr>char_request_uni := True\<rparr>) s)"

definition glk_request_line_event_uni ::
  "ptr \<Rightarrow> ptr \<Rightarrow> glui32 \<Rightarrow> glui32 \<Rightarrow> glk_state \<Rightarrow> glk_state option" where
  "glk_request_line_event_uni win bufp maxlen initlen s =
     (case win of
        None \<Rightarrow> Some s
      | Some a \<Rightarrow> upd_window a (\<lambda>x. x\<lparr>line_request_uni := True, line_buffer_uni := bufp,
                                        line_buflen := maxlen\<rparr>) s)"

subsection \<open>Callers\<close>

text \<open>\<open>n\<close> successive calls of \<^verbatim>\<open>glk_get_char_stream\<close>, with the values they return.\<close>

fun get_chars :: "nat \<Rightarrow> ptr \<Rightarrow> glk_state \<Rightarrow> (glsi32 list \<times> glk_state) option" where
  "get_chars 0 str s = Some ([], s)"
| "get_chars (Suc n) str s =
     do { (c, s1) \<leftarrow> glk_get_char_stream str s;
          (cs, s2) \<leftarrow> get_chars n str s1;
          Some (c # cs, s2) }"

text \<open>A read and write memory stream over a caller's array of ten bytes, just opened.\<close>

definition ten_byte_stream :: "(ptr \<times> glk_state) option" where
  "ten_byte_stream =
     glk_stream_open_memory (Some 0) 10 filemode_ReadWrite 0 (Some 0)
       ((initial_state [])\<lparr>mem := [0 \<mapsto> replicate 10 NUL]\<rparr>)"

text \<open>
  A read and write memory stream over a caller's array of ten 32-bit values, just opened
  with \<^verbatim>\<open>glk_stream_open_memory_uni\<close>.
\<close>

definition ten_word_stream :: "(ptr \<times> glk_state) option" where
  "ten_word_stream =
     glk_stream_open_memory_uni (Some 0) 10 filemode_ReadWrite 0 (Some 0)
       ((initial_state [])\<lparr>mem_uni := [0 \<mapsto> replicate 10 0]\<rparr>)"

subsection \<open>Executions\<close>

text \<open>
  One call of the interpreter into the adapter, with what the environment answers in it
  (the results of \<^verbatim>\<open>malloc\<close>, \<^verbatim>\<open>strdup\<close> and \<^verbatim>\<open>fopen\<close>). A flag in place of a result
  or event parameter tells whether the pointer is not \<^verbatim>\<open>NULL\<close>. \<open>Mem_write\<close> and
  \<open>Mem_write_uni\<close> are the interpreter's own stores: they set up or change one of its
  arrays.
\<close>

datatype call =
    Exit
  | Gestalt_ext gestalt glui32 ptr glui32
  | Window_open ptr glui32 glui32 glui32 glui32 ptr ptr
  | Window_close ptr bool
  | Window_clear ptr
  | Window_set_echo_stream ptr ptr
  | Set_window ptr
  | Stream_open_file ptr filemode glui32 "(addr \<times> stdio_file) option" ptr
  | Stream_open_memory ptr glui32 filemode glui32 ptr
  | Stream_open_memory_uni ptr glui32 filemode glui32 ptr
  | Stream_close ptr bool
  | Stream_set_position ptr glsi32 seekmode
  | Stream_set_current ptr
  | Put_char char
  | Put_char_stream ptr char
  | Put_string "string option"
  | Put_string_stream ptr "string option"
  | Put_buffer "string option" glui32
  | Put_buffer_stream ptr "string option" glui32
  | Get_char_stream ptr
  | Fileref_create_temp glui32 glui32 ptr bool
  | Fileref_create_by_name glui32 "string option" glui32 ptr bool
  | Fileref_create_by_prompt glui32 glui32 glui32 ptr bool
  | Fileref_create_from_fileref glui32 ptr glui32 ptr bool
  | Fileref_destroy ptr
  | Select bool
  | Select_poll bool
  | Request_line_event ptr ptr glui32 glui32
  | Request_char_event ptr
  | Cancel_line_event ptr bool
  | Cancel_char_event ptr
  | Request_char_event_uni ptr
  | Request_line_event_uni ptr ptr glui32 glui32
  | Mem_write addr string
  | Mem_write_uni addr "glui32 list"

definition flag_result :: "bool \<Rightarrow> stream_result_t option" where
  "flag_result b = (if b then Some \<lparr>res_readcount = 0, res_writecount = 0\<rparr> else None)"

definition flag_event :: "bool \<Rightarrow> event_t option" where
  "flag_event b = (if b then Some no_event else None)"

fun step :: "glk_h \<Rightarrow> call \<Rightarrow> glk_state \<Rightarrow> glk_state option" where
  "step K Exit s = glk_exit s"
| "step K (Gestalt_ext sel val arr arrlen) s = map_option snd (glk_gestalt_ext K sel val arr arrlen s)"
| "step K (Window_open split method sz wintype rock mw ms) s =
     map_option snd (glk_window_open split method sz wintype rock mw ms s)"
| "step K (Window_close win r) s = map_option snd (glk_window_close win (flag_result r) s)"
| "step K (Window_clear win) s = glk_window_clear win s"
| "step K (Window_set_echo_stream win str) s = glk_window_set_echo_stream win str s"
| "step K (Set_window win) s = glk_set_window win s"
| "step K (Stream_open_file fref fmode rock fo m) s =
     map_option snd (glk_stream_open_file fref fmode rock fo m s)"
| "step K (Stream_open_memory bufp len fmode rock m) s =
     map_option snd (glk_stream_open_memory bufp len fmode rock m s)"
| "step K (Stream_open_memory_uni bufp len fmode rock m) s =
     map_option snd (glk_stream_open_memory_uni bufp len fmode rock m s)"
| "step K (Stream_close str r) s = map_option snd (glk_stream_close str (flag_result r) s)"
| "step K (Stream_set_position str pos mode) s = glk_stream_set_position str pos mode s"
| "step K (Stream_set_current str) s = glk_stream_set_current str s"
| "step K (Put_char ch) s = glk_put_char ch s"
| "step K (Put_char_stream str ch) s = glk_put_char_stream str ch s"
| "step K (Put_string sp) s = glk_put_string sp s"
| "step K (Put_string_stream str sp) s = glk_put_string_stream str sp s"
| "step K (Put_buffer bp len) s = glk_put_buffer bp len s"
| "step K (Put_buffer_stream str bp len) s = glk_put_buffer_stream str bp len s"
| "step K (Get_char_stream str) s = map_option snd (glk_get_char_stream str s)"
| "step K (Fileref_create_temp usg rock m d) s =
     map_option snd (glk_fileref_create_temp K usg rock m d s)"
| "step K (Fileref_create_by_name usg name rock m d) s =
     map_option snd (glk_fileref_create_by_name K usg name rock m d s)"
| "step K (Fileref_create_by_prompt usg fmode rock m d) s =
     map_option snd (glk_fileref_create_by_prompt K usg fmode rock m d s)"
| "step K (Fileref_create_from_fileref usg fref rock m d) s =
     map_option snd (glk_fileref_create_from_fileref K usg fref rock m d s)"
| "step K (Fileref_destroy fref) s = glk_fileref_destroy fref s"
| "step K (Select e) s = map_option snd (glk_select K (flag_event e) s)"
| "step K (Select_poll e) s = map_option snd (glk_select_poll (flag_event e) s)"
| "step K (Request_line_event win bufp maxlen initlen) s =
     glk_request_line_event win bufp maxlen initlen s"
| "step K (Request_char_event win) s = glk_request_char_event win s"
| "step K (Cancel_line_event win e) s = map_option snd (glk_cancel_line_event win (flag_event e) s)"
| "step K (Cancel_char_event win) s = glk_cancel_char_event win s"
| "step K (Request_char_event_uni win) s = glk_request_char_event_uni win s"
| "step K (Request_line_event_uni win bufp maxlen initlen) s =
     glk_request_line_event_uni win bufp maxlen initlen s"
| "step K (Mem_write b arr) s = Some (s\<lparr>mem := (mem s)(b \<mapsto> arr)\<rparr>)"
| "step K (Mem_write_uni b arr) s = Some (s\<lparr>mem_uni := (mem_uni s)(b \<mapsto> arr)\<rparr>)"

text \<open>
  The calls of an execution in order. Once the process has exited, nothing more of it
  runs.
\<close>

fun run :: "glk_h \<Rightarrow> call list \<Rightarrow> glk_state \<Rightarrow> glk_state option" where
  "run K [] s = Some s"
| "run K (c # cs) s = (if exited s then Some s else do { s1 \<leftarrow> step K c s; run K cs s1 })"

definition init_frame :: string where
  "init_frame = ''{\"type\":\"init\",\"version\":\"0.7.6\",\"support\":[\"unicode\",\"hyperlinks\",\"datetime\"]}''"

text \<open>
  \<^verbatim>\<open>main\<close>: the \<open>init\<close> frame, the interpreter's \<^verbatim>\<open>glk_main\<close> (the calls it makes),
  then \<^verbatim>\<open>glk_exit\<close>. The case tables that \<^verbatim>\<open>main\<close> fills first are not part of the
  model. \<open>program_start\<close> is the state in which \<^verbatim>\<open>glk_main\<close> is entered.
\<close>

definition program_start :: "string \<Rightarrow> glk_state option" where
  "program_start inp =
     do { s1 \<leftarrow> json_append init_frame (json_reset (initial_state inp)); Some (json_flush s1) }"

definition main :: "glk_h \<Rightarrow> call list \<Rightarrow> string \<Rightarrow> glk_state option" where
  "main K glk_main inp =
     do { s1 \<leftarrow> program_start inp;
          s2 \<leftarrow> run K glk_main s1;
          if exited s2 then Some s2 else glk_exit s2 }"

text \<open>The frame of one character written to the window with identifier \<open>n\<close>.\<close>

definition text_frame :: "glui32 \<Rightarrow> char \<Rightarrow> string" where
  "text_frame n ch =
     text_frame_head n @ [CHR 0x22] @ concat (map escape_char (c_string [ch, NUL])) @ [CHR 0x22]
       @ ''}]}''"

text \<open>The state after a frame \<open>f\<close> has been built in the cleared buffer and flushed.\<close>

definition emit :: "string \<Rightarrow> glk_state \<Rightarrow> glk_state" where
  "emit f s = s\<lparr>io := io s @ [Put_line f], json_pos := 0, json_buffer := []\<rparr>"

subsection \<open>Scenarios\<close>

text \<open>The values of the constants in the published header of Glk 0.7.\<close>

definition glk_h_0_7 :: glk_h where
  "glk_h_0_7 =
     \<lparr> keycode_Return = 0xfffffffa, keycode_MAXVAL = 28, gestalt_CharOutput_ExactPrint = 2,
       gestalt_CharOutput_CannotPrint = 0, fileusage_TextMode = 0x100 \<rparr>"

text \<open>
  A program start with \<open>inp\<close> on standard input: one text-buffer window is opened,
  both allocations giving address 0.
\<close>

definition one_window :: "string \<Rightarrow> (ptr \<times> glk_state) option" where
  "one_window inp = glk_window_open None 0 0 3 0 (Some 0) (Some 0) (initial_state inp)"

text \<open>
  The same start with an array of \<open>n\<close> bytes of the interpreter at address 0, and a
  line request on the window into that array, of capacity \<open>n\<close>.
\<close>

definition line_request_pending :: "string \<Rightarrow> nat \<Rightarrow> glk_state option" where
  "line_request_pending inp n =
     do { (win, s1) \<leftarrow> glk_window_open None 0 0 3 0 (Some 0) (Some 0)
                         ((initial_state inp)\<lparr>mem := [0 \<mapsto> replicate n NUL]\<rparr>);
          glk_request_line_event win (Some 0) (of_nat n) 0 s1 }"

text \<open>
  An interpreter that opens a window, asks for a character, waits, and would then
  write a character.
\<close>

definition wait_for_char :: "call list" where
  "wait_for_char =
     [Window_open None 0 0 3 0 (Some 0) (Some 0), Request_char_event (Some 0), Select True,
      Put_char CHR ''x'']"

subsection \<open>Relations between the states before and after a call\<close>

text \<open>
  The call has not ended the process, and what it printed or read, if anything, holds
  no exit frame.
\<close>

definition prints_no_exit :: "glk_state \<Rightarrow> glk_state \<Rightarrow> bool" where
  "prints_no_exit s s' \<longleftrightarrow>
     exited s' = exited s \<and> (\<exists>new. io s' = io s @ new \<and> Put_line exit_frame \<notin> set new)"

text \<open>The call has ended the process, and the exit frame is the last thing it printed.\<close>

definition exits_with_frame :: "glk_state \<Rightarrow> glk_state \<Rightarrow> bool" where
  "exits_with_frame s s' \<longleftrightarrow>
     exited s' \<and> (\<exists>pre. io s' = io s @ pre @ [Put_line exit_frame] \<and> Put_line exit_frame \<notin> set pre)"

subsection \<open>Object identifiers and counts\<close>














text \<open>
  The three kinds of object, and for each kind the identifiers in use, the counter, and
  the calls that take an identifier, create an object and destroy one.
\<close>

datatype kind = Window | Stream | Fileref











section \<open>Properties\<close>

subsection \<open>Capability query\<close>

text \<open>
  C9. The value of the capability query is a function of the selector and the argument
  alone: every state gives the same value, and the query leaves the state as it is.
  (With an output array, \<^verbatim>\<open>glk_gestalt_ext\<close> may store into it, and returns that same
  value whenever the store is defined.) Unicode, hyperlinks and date/time report 1;
  sound, graphics, mouse input and timers report 0.
\<close>

theorem glk_gestalt_fixed:
  "(\<exists>v. \<forall>s. glk_gestalt K sel val s = Some (v, s))
   \<and> (\<exists>v. \<forall>s arr len. case glk_gestalt_ext K sel val arr len s of
                          None \<Rightarrow> True | Some (v', s') \<Rightarrow> v' = v)
   \<and> glk_gestalt K gestalt_Unicode val s = Some (1, s)
   \<and> glk_gestalt K gestalt_Hyperlinks val s = Some (1, s)
   \<and> glk_gestalt K gestalt_HyperlinkInput val s = Some (1, s)
   \<and> glk_gestalt K gestalt_DateTime val s = Some (1, s)
   \<and> glk_gestalt K gestalt_Sound val s = Some (0, s)
   \<and> glk_gestalt K gestalt_SoundVolume val s = Some (0, s)
   \<and> glk_gestalt K gestalt_SoundNotify val s = Some (0, s)
   \<and> glk_gestalt K gestalt_SoundMusic val s = Some (0, s)
   \<and> glk_gestalt K gestalt_Sound2 val s = Some (0, s)
   \<and> glk_gestalt K gestalt_Graphics val s = Some (0, s)
   \<and> glk_gestalt K gestalt_DrawImage val s = Some (0, s)
   \<and> glk_gestalt K gestalt_GraphicsTransparency val s = Some (0, s)
   \<and> glk_gestalt K gestalt_GraphicsCharInput val s = Some (0, s)
   \<and> glk_gestalt K gestalt_DrawImageScale val s = Some (0, s)
   \<and> glk_gestalt K gestalt_MouseInput val s = Some (0, s)
   \<and> glk_gestalt K gestalt_Timer val s = Some (0, s)"
proof -
  let ?v = "fst (the (glk_gestalt K sel val (initial_state [])))"
  have "\<forall>s. glk_gestalt K sel val s = Some (?v, s)"
    by (cases sel) (auto simp: glk_gestalt_def glk_gestalt_ext_def)
  then have a: "\<exists>v. \<forall>s. glk_gestalt K sel val s = Some (v, s)" ..
  have "\<forall>s arr len. case glk_gestalt_ext K sel val arr len s of
            None \<Rightarrow> True | Some (v', s') \<Rightarrow> v' = ?v"
    by (cases sel) (auto simp: glk_gestalt_def glk_gestalt_ext_def split: option.splits bind_splits)
  then have b: "\<exists>v. \<forall>s arr len. case glk_gestalt_ext K sel val arr len s of
                          None \<Rightarrow> True | Some (v', s') \<Rightarrow> v' = v" ..
  show ?thesis using a b by (simp add: glk_gestalt_def glk_gestalt_ext_def)
qed

subsection \<open>Seeking in a memory stream\<close>

lemma set_position_mem:
  assumes "streams s a = Some st" and "str_type st = 1"
  shows "glk_stream_set_position (Some a) pos mode s =
     Some (s\<lparr>streams := (streams s)(a \<mapsto> st\<lparr>bufptr :=
        (let p = (if mode = seekmode_Current then bufptr st + pos
                  else if mode = seekmode_End then buflen st + pos else pos)
         in if p > buflen st then buflen st else p)\<rparr>)\<rparr>)"
  using assms by (auto simp: glk_stream_set_position_def upd_stream_def Let_def)

text \<open>
  C6, on the code: a seek to the absolute offset \<open>-1\<close> in a memory stream of length 10
  leaves the position at 10, the end of the buffer, where the claim has 0. The offset
  is stored in the unsigned position before the only test, which is against the length.
\<close>

theorem set_position_negative_lands_at_end:
  "do { (str, s1) \<leftarrow> ten_byte_stream;
        s2 \<leftarrow> glk_stream_set_position str (- 1) seekmode_Start s1;
        glk_stream_get_position str s2 } = Some 10"
  by (simp add: ten_byte_stream_def glk_stream_open_memory_def gli_stream_new_def initial_state_def
      upd_stream_def glk_stream_set_position_def glk_stream_get_position_def zero_stream_def)

subsection \<open>Memory streams\<close>

lemma put_char_mem:
  assumes "streams s a = Some st" "str_type st = 1" "writable st" "buf st = Some b"
    "mem s b = Some arr" "unat (buflen st) \<le> length arr"
  shows "gli_put_char_to_stream (Some a) ch s =
     Some (if bufptr st < buflen st
           then s\<lparr>streams := (streams s)(a \<mapsto> st\<lparr>writecount := writecount st + 1, bufptr := bufptr st + 1\<rparr>),
                  mem := (mem s)(b \<mapsto> arr[unat (bufptr st) := ch])\<rparr>
           else s\<lparr>streams := (streams s)(a \<mapsto> st\<lparr>writecount := writecount st + 1\<rparr>)\<rparr>)"
  using assms
  by (auto simp: gli_put_char_to_stream_def upd_stream_def store_char_def word_less_nat_alt)

lemma put_chars_mem:
  assumes "streams s a = Some st" "str_type st = 1" "writable st" "buf st = Some b"
    "mem s b = Some arr" "length arr = unat (buflen st)" "bufptr st \<le> buflen st"
  shows "put_chars (Some a) bs s =
     Some (s\<lparr>streams := (streams s)(a \<mapsto>
               st\<lparr>writecount := writecount st + of_nat (length bs),
                  bufptr := of_nat (min (unat (buflen st)) (unat (bufptr st) + length bs))\<rparr>),
             mem := (mem s)(b \<mapsto> take (unat (bufptr st)) arr
                       @ take (unat (buflen st) - unat (bufptr st)) bs
                       @ drop (unat (bufptr st) + length bs) arr)\<rparr>)"
  using assms
proof (induction bs arbitrary: s st arr)
  case Nil
  have m: "min (unat (buflen st)) (unat (bufptr st)) = unat (bufptr st)"
    using Nil.prems(7) by (simp add: word_le_nat_alt)
  have st: "st\<lparr>writecount := writecount st, bufptr := bufptr st\<rparr> = st" by simp
  have "(streams s)(a \<mapsto> st) = streams s" "(mem s)(b \<mapsto> arr) = mem s"
    using Nil.prems by (simp_all add: map_upd_triv)
  then show ?case by (simp add: m st del: fun_upd_apply)
next
  case (Cons c cs)
  show ?case
  proof (cases "bufptr st < buflen st")
    case True
    let ?st' = "st\<lparr>writecount := writecount st + 1, bufptr := bufptr st + 1\<rparr>"
    let ?arr' = "arr[unat (bufptr st) := c]"
    let ?s' = "s\<lparr>streams := (streams s)(a \<mapsto> ?st'), mem := (mem s)(b \<mapsto> ?arr')\<rparr>"
    have step: "gli_put_char_to_stream (Some a) c s = Some ?s'"
      using put_char_mem[of s a st b arr c] Cons.prems True by simp
    have lt: "unat (bufptr st) < unat (buflen st)" using True by (simp add: word_less_nat_alt)
    have p1: "unat (bufptr st + 1) = Suc (unat (bufptr st))"
    proof -
      have "unat (buflen st) < 2 ^ 32" using unsigned_less[of "buflen st", where 'a=nat] by simp
      then have "unat (bufptr st) + unat (1 :: glui32) < 2 ^ LENGTH(32)" using lt by simp
      then have "unat (bufptr st + 1) = unat (bufptr st) + unat (1 :: glui32)"
        by (simp only: unat_add_lem)
      then show ?thesis by simp
    qed
    have le': "bufptr ?st' \<le> buflen ?st'"
      using p1 lt by (simp add: word_le_nat_alt)
    have ih: "put_chars (Some a) cs ?s' = Some (?s'\<lparr>streams := (streams ?s')(a \<mapsto>
               ?st'\<lparr>writecount := writecount ?st' + of_nat (length cs),
                  bufptr := of_nat (min (unat (buflen ?st')) (unat (bufptr ?st') + length cs))\<rparr>),
             mem := (mem ?s')(b \<mapsto> take (unat (bufptr ?st')) ?arr'
                       @ take (unat (buflen ?st') - unat (bufptr ?st')) cs
                       @ drop (unat (bufptr ?st') + length cs) ?arr')\<rparr>)"
      by (rule Cons.IH) (use Cons.prems le' in simp_all)
    have l1: "take (Suc (unat (bufptr st))) ?arr' = take (unat (bufptr st)) arr @ [c]"
      using lt Cons.prems(6) by (simp add: take_Suc_conv_app_nth)
    have l2: "take (unat (buflen st) - unat (bufptr st)) (c # cs)
               = c # take (unat (buflen st) - Suc (unat (bufptr st))) cs"
      using lt by (simp add: take_Cons')
    have "put_chars (Some a) (c # cs) s = put_chars (Some a) cs ?s'"
      by (simp add: step)
    also note ih
    finally show ?thesis
      by (simp add: p1 l1 l2 add.assoc del: fun_upd_apply)
  next
    case False
    let ?st' = "st\<lparr>writecount := writecount st + 1\<rparr>"
    let ?s' = "s\<lparr>streams := (streams s)(a \<mapsto> ?st')\<rparr>"
    have step: "gli_put_char_to_stream (Some a) c s = Some ?s'"
      using put_char_mem[of s a st b arr c] Cons.prems False by simp
    have eq: "bufptr st = buflen st" using False Cons.prems(7) by simp
    have ih: "put_chars (Some a) cs ?s' = Some (?s'\<lparr>streams := (streams ?s')(a \<mapsto>
               ?st'\<lparr>writecount := writecount ?st' + of_nat (length cs),
                  bufptr := of_nat (min (unat (buflen ?st')) (unat (bufptr ?st') + length cs))\<rparr>),
             mem := (mem ?s')(b \<mapsto> take (unat (bufptr ?st')) arr
                       @ take (unat (buflen ?st') - unat (bufptr ?st')) cs
                       @ drop (unat (bufptr ?st') + length cs) arr)\<rparr>)"
      by (rule Cons.IH) (use Cons.prems in simp_all)
    have "put_chars (Some a) (c # cs) s = put_chars (Some a) cs ?s'"
      by (simp add: step)
    also note ih
    finally show ?thesis
      using Cons.prems(6) by (simp add: eq add.assoc del: fun_upd_apply)
  qed
qed

lemma unat_succ_lt:
  fixes x y :: glui32
  assumes "x < y"
  shows "unat (x + 1) = Suc (unat x)"
proof -
  have "unat y < 2 ^ 32" using unsigned_less[of y, where 'a=nat] by simp
  then have "unat x + unat (1 :: glui32) < 2 ^ LENGTH(32)"
    using assms by (simp add: word_less_nat_alt)
  then have "unat (x + 1) = unat x + unat (1 :: glui32)"
    by (simp only: unat_add_lem)
  then show ?thesis by simp
qed

lemma get_char_mem:
  assumes "streams s a = Some st" "str_type st = 1" "readable st" "buf st = Some b"
    "mem s b = Some arr" "unat (buflen st) \<le> length arr"
  shows "glk_get_char_stream (Some a) s =
     Some (if bufptr st < buflen st
           then (of_char (arr ! unat (bufptr st)),
                 s\<lparr>streams := (streams s)(a \<mapsto> st\<lparr>readcount := readcount st + 1, bufptr := bufptr st + 1\<rparr>)\<rparr>)
           else (- 1, s\<lparr>streams := (streams s)(a \<mapsto> st\<lparr>readcount := readcount st + 1\<rparr>)\<rparr>))"
  using assms
  by (auto simp: glk_get_char_stream_def upd_stream_def word_less_nat_alt)

lemma get_chars_mem:
  assumes "streams s a = Some st" "str_type st = 1" "readable st" "buf st = Some b"
    "mem s b = Some arr" "unat (buflen st) \<le> length arr"
    "unat (bufptr st) + n \<le> unat (buflen st)"
  shows "get_chars n (Some a) s =
     Some (map of_char (take n (drop (unat (bufptr st)) arr)),
           s\<lparr>streams := (streams s)(a \<mapsto>
               st\<lparr>readcount := readcount st + of_nat n, bufptr := bufptr st + of_nat n\<rparr>)\<rparr>)"
  using assms
proof (induction n arbitrary: s st)
  case 0
  have "(streams s)(a \<mapsto> st) = streams s" using 0 by (simp add: map_upd_triv)
  then show ?case by (simp del: fun_upd_apply)
next
  case (Suc n)
  let ?st' = "st\<lparr>readcount := readcount st + 1, bufptr := bufptr st + 1\<rparr>"
  let ?s' = "s\<lparr>streams := (streams s)(a \<mapsto> ?st')\<rparr>"
  have lt: "bufptr st < buflen st" using Suc.prems(7) by (simp add: word_less_nat_alt)
  have p1: "unat (bufptr st + 1) = Suc (unat (bufptr st))" using lt by (rule unat_succ_lt)
  have step: "glk_get_char_stream (Some a) s = Some (of_char (arr ! unat (bufptr st)), ?s')"
    using get_char_mem[of s a st b arr] Suc.prems lt by simp
  have ih: "get_chars n (Some a) ?s' =
     Some (map of_char (take n (drop (unat (bufptr ?st')) arr)),
           ?s'\<lparr>streams := (streams ?s')(a \<mapsto>
               ?st'\<lparr>readcount := readcount ?st' + of_nat n, bufptr := bufptr ?st' + of_nat n\<rparr>)\<rparr>)"
    by (rule Suc.IH) (use Suc.prems p1 in simp_all)
  have inb: "unat (bufptr st) < length arr" using Suc.prems(6,7) by simp
  have l: "take (Suc n) (drop (unat (bufptr st)) arr)
            = arr ! unat (bufptr st) # take n (drop (Suc (unat (bufptr st))) arr)"
    using inb by (simp add: Cons_nth_drop_Suc[symmetric])
  show ?case
    by (simp add: step ih p1 l add.assoc del: fun_upd_apply)
qed

lemma get_char_past_end:
  assumes "streams s a = Some st" "str_type st = 1" "readable st" "buflen st \<le> bufptr st"
  shows "glk_get_char_stream (Some a) s =
     Some (- 1, s\<lparr>streams := (streams s)(a \<mapsto> st\<lparr>readcount := readcount st + 1\<rparr>)\<rparr>)"
  using assms by (auto simp: glk_get_char_stream_def upd_stream_def)

text \<open>
  C3, for the streams of \<^verbatim>\<open>glk_stream_open_memory\<close>. A memory stream over a caller's
  array of \<open>C\<close> bytes (its \<^verbatim>\<open>buf\<close> is that array), readable and writable, with its
  cursor at 0. Writing the bytes \<open>bs\<close> stores the first \<open>C\<close> of them at the start of
  the array and nothing else, leaves the cursor at the smaller of \<open>C\<close> and the number of
  bytes, and adds that number to the write counter (this holds for \<open>bs\<close> and so for every
  prefix of it: the cursor never passes \<open>C\<close>, and bytes stored stay as they are while
  the excess is dropped). When \<open>bs\<close> fits, a seek to 0 and as many reads return \<open>bs\<close>.
  A read with the cursor at the end returns \<open>-1\<close> and changes the read counter only.
\<close>

theorem memory_stream_write_read:
  assumes "streams s a = Some st" and "str_type st = 1" and "readable st" and "writable st"
    and "buf st = Some b" and "mem s b = Some arr" and "length arr = unat (buflen st)"
    and "bufptr st = 0" and "length bs < 2 ^ 32"
  shows "\<exists>s1 st1.
      glk_put_buffer_stream (Some a) (Some bs) (of_nat (length bs)) s = Some s1
    \<and> streams s1 a = Some st1
    \<and> mem s1 b = Some (take (unat (buflen st)) bs @ drop (length bs) arr)
    \<and> unat (bufptr st1) = min (unat (buflen st)) (length bs)
    \<and> writecount st1 = writecount st + of_nat (length bs)
    \<and> (length bs \<le> unat (buflen st) \<longrightarrow>
         (\<exists>s2 s3. glk_stream_set_position (Some a) 0 seekmode_Start s1 = Some s2
                \<and> get_chars (length bs) (Some a) s2 = Some (map of_char bs, s3)))
    \<and> (\<forall>s' st'. streams s' a = Some st' \<and> str_type st' = 1 \<and> readable st'
                 \<and> buflen st' \<le> bufptr st' \<longrightarrow>
           glk_get_char_stream (Some a) s'
             = Some (- 1, s'\<lparr>streams := (streams s')(a \<mapsto> st'\<lparr>readcount := readcount st' + 1\<rparr>)\<rparr>))"
proof -
  let ?C = "unat (buflen st)"
  let ?n = "length bs"
  let ?st1 = "st\<lparr>writecount := writecount st + of_nat ?n, bufptr := of_nat (min ?C ?n)\<rparr>"
  let ?arr1 = "take ?C bs @ drop ?n arr"
  let ?s1 = "s\<lparr>streams := (streams s)(a \<mapsto> ?st1), mem := (mem s)(b \<mapsto> ?arr1)\<rparr>"
  have len: "unat (of_nat ?n :: glui32) = ?n"
    using assms(9) by (simp add: unat_of_nat)
  have "put_chars (Some a) bs s = Some ?s1"
    using put_chars_mem[of s a st b arr bs] assms by simp
  then have put: "glk_put_buffer_stream (Some a) (Some bs) (of_nat ?n) s = Some ?s1"
    by (simp add: glk_put_buffer_stream_def len)
  have ptr: "unat (bufptr ?st1) = min ?C ?n"
  proof -
    have "min ?C ?n < 2 ^ 32" using assms(9) by simp
    then show ?thesis by (simp add: unat_of_nat)
  qed
  have rt: "\<exists>s2 s3. glk_stream_set_position (Some a) 0 seekmode_Start ?s1 = Some s2
                \<and> get_chars ?n (Some a) s2 = Some (map of_char bs, s3)" if le: "?n \<le> ?C"
  proof -
    let ?st2 = "?st1\<lparr>bufptr := 0\<rparr>"
    let ?s2 = "?s1\<lparr>streams := (streams ?s1)(a \<mapsto> ?st2)\<rparr>"
    have seek: "glk_stream_set_position (Some a) 0 seekmode_Start ?s1 = Some ?s2"
      using set_position_mem[of ?s1 a ?st1 0 seekmode_Start] assms(2) by simp
    have "get_chars ?n (Some a) ?s2 =
       Some (map of_char (take ?n (drop (unat (bufptr ?st2)) ?arr1)),
           ?s2\<lparr>streams := (streams ?s2)(a \<mapsto>
               ?st2\<lparr>readcount := readcount ?st2 + of_nat ?n, bufptr := bufptr ?st2 + of_nat ?n\<rparr>)\<rparr>)"
      by (rule get_chars_mem[where b=b]) (use assms le in simp_all)
    then have "get_chars ?n (Some a) ?s2 = Some (map of_char bs,
           ?s2\<lparr>streams := (streams ?s2)(a \<mapsto>
               ?st2\<lparr>readcount := readcount ?st2 + of_nat ?n, bufptr := bufptr ?st2 + of_nat ?n\<rparr>)\<rparr>)"
      using le by simp
    with seek show ?thesis by blast
  qed
  have past: "\<forall>s' st'. streams s' a = Some st' \<and> str_type st' = 1 \<and> readable st'
                 \<and> buflen st' \<le> bufptr st' \<longrightarrow>
           glk_get_char_stream (Some a) s'
             = Some (- 1, s'\<lparr>streams := (streams s')(a \<mapsto> st'\<lparr>readcount := readcount st' + 1\<rparr>)\<rparr>)"
    using get_char_past_end by blast
  have "streams ?s1 a = Some ?st1" "mem ?s1 b = Some ?arr1" "writecount ?st1 = writecount st + of_nat ?n"
    by simp_all
  with put ptr rt past show ?thesis by blast
qed

theorem memory_stream_write_read_witness:
  "do { (str, s0) \<leftarrow> ten_byte_stream;
        s1 \<leftarrow> glk_put_buffer_stream str (Some ''hello'') 5 s0;
        s2 \<leftarrow> glk_stream_set_position str 0 seekmode_Start s1;
        (cs, s3) \<leftarrow> get_chars 5 str s2;
        Some cs } = Some [104, 101, 108, 108, 111]"
proof -
  obtain s0 where s0: "ten_byte_stream = Some (Some 0, s0)"
    and st: "streams s0 0 = Some (zero_stream\<lparr>str_magicnum := MAGIC_STREAM_NUM, str_id := 1,
        str_type := 1, readable := True, writable := True, buf := Some 0, buflen := 10\<rparr>)"
    and m: "mem s0 0 = Some (replicate 10 NUL)"
    by (simp add: ten_byte_stream_def glk_stream_open_memory_def gli_stream_new_def
        initial_state_def upd_stream_def zero_stream_def)
  have "length ''hello'' = 5" "(of_nat (length ''hello'') :: glui32) = 5" by simp_all
  with memory_stream_write_read[OF st _ _ _ _ m, where bs = "''hello''"]
  obtain s1 s2 s3 where
    "glk_put_buffer_stream (Some 0) (Some ''hello'') 5 s0 = Some s1"
    "glk_stream_set_position (Some 0) 0 seekmode_Start s1 = Some s2"
    "get_chars 5 (Some 0) s2 = Some (map of_char ''hello'', s3)"
    by (auto simp: zero_stream_def simp del: get_chars.simps length_Cons list.size)
  then show ?thesis by (simp add: s0 del: get_chars.simps)
qed

lemma put_chars_no_buf:
  assumes "streams s a = Some st" "str_type st = 1" "writable st" "buf st = None"
  shows "put_chars (Some a) bs s =
     Some (s\<lparr>streams := (streams s)(a \<mapsto> st\<lparr>writecount := writecount st + of_nat (length bs)\<rparr>)\<rparr>)"
  using assms
proof (induction bs arbitrary: s st)
  case Nil
  have "(streams s)(a \<mapsto> st) = streams s" using Nil by (simp add: map_upd_triv)
  then show ?case by (simp del: fun_upd_apply)
next
  case (Cons c cs)
  let ?st' = "st\<lparr>writecount := writecount st + 1\<rparr>"
  let ?s' = "s\<lparr>streams := (streams s)(a \<mapsto> ?st')\<rparr>"
  have step: "gli_put_char_to_stream (Some a) c s = Some ?s'"
    using Cons.prems by (simp add: gli_put_char_to_stream_def upd_stream_def)
  have ih: "put_chars (Some a) cs ?s' = Some (?s'\<lparr>streams := (streams ?s')(a \<mapsto>
               ?st'\<lparr>writecount := writecount ?st' + of_nat (length cs)\<rparr>)\<rparr>)"
    by (rule Cons.IH) (use Cons.prems in simp_all)
  show ?case by (simp add: step ih add.assoc del: fun_upd_apply)
qed

lemma get_chars_no_buf:
  assumes "streams s a = Some st" "str_type st = 1" "readable st" "buf st = None"
  shows "get_chars n (Some a) s =
     Some (replicate n (- 1),
           s\<lparr>streams := (streams s)(a \<mapsto> st\<lparr>readcount := readcount st + of_nat n\<rparr>)\<rparr>)"
  using assms
proof (induction n arbitrary: s st)
  case 0
  have "(streams s)(a \<mapsto> st) = streams s" using 0 by (simp add: map_upd_triv)
  then show ?case by (simp del: fun_upd_apply)
next
  case (Suc n)
  let ?st' = "st\<lparr>readcount := readcount st + 1\<rparr>"
  let ?s' = "s\<lparr>streams := (streams s)(a \<mapsto> ?st')\<rparr>"
  have step: "glk_get_char_stream (Some a) s = Some (- 1, ?s')"
    using Suc.prems by (simp add: glk_get_char_stream_def upd_stream_def)
  have ih: "get_chars n (Some a) ?s' = Some (replicate n (- 1), ?s'\<lparr>streams := (streams ?s')(a \<mapsto>
               ?st'\<lparr>readcount := readcount ?st' + of_nat n\<rparr>)\<rparr>)"
    by (rule Suc.IH) (use Suc.prems in simp_all)
  show ?case by (simp add: step ih add.assoc del: fun_upd_apply)
qed

text \<open>
  C3, on the code: in a memory stream that \<^verbatim>\<open>glk_stream_open_memory_uni\<close> opens, the
  caller's array is kept in \<^verbatim>\<open>buf_uni\<close>, which no function reads or writes through, and
  \<^verbatim>\<open>buf\<close> is \<^verbatim>\<open>NULL\<close>. The bytes written to it are counted and stored nowhere, and
  every read returns \<open>-1\<close>, where the claim has the bytes written come back. Five
  bytes written to such a stream of capacity 10 opened for reading and writing, a seek
  to 0 and five reads: each read returns \<open>-1\<close>, the array is as it was, and the write
  counter stands at 5.
\<close>

theorem unicode_memory_stream_keeps_no_bytes:
  "do { (str, s0) \<leftarrow> ten_word_stream;
        s1 \<leftarrow> glk_put_buffer_stream str (Some ''hello'') 5 s0;
        s2 \<leftarrow> glk_stream_set_position str 0 seekmode_Start s1;
        (cs, s3) \<leftarrow> get_chars 5 str s2;
        Some (cs, mem_uni s3 0, map_option writecount (streams s3 0)) }
   = Some ([- 1, - 1, - 1, - 1, - 1], Some (replicate 10 0), Some 5)"
proof -
  let ?st = "zero_stream\<lparr>str_magicnum := MAGIC_STREAM_NUM, str_id := 1, str_type := 1,
               readable := True, writable := True, buf_uni := Some 0, buflen := 10,
               is_unicode := True\<rparr>"
  obtain s0 where s0: "ten_word_stream = Some (Some 0, s0)"
    and st: "streams s0 0 = Some ?st" and m: "mem_uni s0 0 = Some (replicate 10 0)"
    by (simp add: ten_word_stream_def glk_stream_open_memory_uni_def gli_stream_new_def
        initial_state_def upd_stream_def zero_stream_def)
  let ?st1 = "?st\<lparr>writecount := writecount ?st + of_nat (length ''hello'')\<rparr>"
  let ?s1 = "s0\<lparr>streams := (streams s0)(0 \<mapsto> ?st1)\<rparr>"
  let ?st2 = "?st1\<lparr>bufptr := 0\<rparr>"
  let ?s2 = "?s1\<lparr>streams := (streams ?s1)(0 \<mapsto> ?st2)\<rparr>"
  let ?st3 = "?st2\<lparr>readcount := readcount ?st2 + of_nat 5\<rparr>"
  let ?s3 = "?s2\<lparr>streams := (streams ?s2)(0 \<mapsto> ?st3)\<rparr>"
  have "put_chars (Some 0) ''hello'' s0 = Some ?s1"
    by (rule put_chars_no_buf[OF st]) (simp_all add: zero_stream_def)
  then have put: "glk_put_buffer_stream (Some 0) (Some ''hello'') 5 s0 = Some ?s1"
    by (simp add: glk_put_buffer_stream_def del: put_chars.simps)
  have "glk_stream_set_position (Some 0) 0 seekmode_Start ?s1 =
     Some (?s1\<lparr>streams := (streams ?s1)(0 \<mapsto> ?st1\<lparr>bufptr :=
        (let p = (if seekmode_Start = seekmode_Current then bufptr ?st1 + 0
                  else if seekmode_Start = seekmode_End then buflen ?st1 + 0 else 0)
         in if p > buflen ?st1 then buflen ?st1 else p)\<rparr>)\<rparr>)"
    by (rule set_position_mem) simp_all
  then have seek: "glk_stream_set_position (Some 0) 0 seekmode_Start ?s1 = Some ?s2"
    by (simp add: zero_stream_def)
  have get: "get_chars 5 (Some 0) ?s2 = Some (replicate 5 (- 1), ?s3)"
    by (rule get_chars_no_buf) (simp_all add: zero_stream_def)
  have r: "replicate 5 (- 1 :: glsi32) = [- 1, - 1, - 1, - 1, - 1]"
    by (simp add: numeral_eq_Suc)
  have "mem_uni ?s3 0 = Some (replicate 10 0)" "map_option writecount (streams ?s3 0) = Some 5"
    using m by (simp_all add: zero_stream_def)
  then show ?thesis
    unfolding s0 using put seek get r
    by (simp del: get_chars.simps put_chars.simps fun_upd_apply)
qed

subsection \<open>Frames and input lines\<close>

lemma length_fmt_u_nat: "0 < k \<Longrightarrow> n < 10 ^ k \<Longrightarrow> length (fmt_u_nat n) \<le> k"
proof (induction k arbitrary: n)
  case 0
  then show ?case by simp
next
  case (Suc k)
  show ?case
  proof (cases "n < 10")
    case True
    then show ?thesis by (simp add: fmt_u_nat.simps)
  next
    case False
    then have k: "0 < k" using Suc.prems by (cases k) auto
    have "n div 10 < 10 ^ k" using Suc.prems by (simp add: less_mult_imp_div_less mult.commute)
    then have "length (fmt_u_nat (n div 10)) \<le> k" using Suc.IH k by simp
    then show ?thesis using False by (subst fmt_u_nat.simps) simp
  qed
qed

lemma length_fmt_u: "length (fmt_u w) \<le> 10"
proof -
  have "unat w < 2 ^ 32" using unsigned_less[of w, where 'a=nat] by simp
  then have "unat w < 10 ^ 10" by simp
  then show ?thesis unfolding fmt_u_def by (intro length_fmt_u_nat) simp_all
qed

lemma fmt_u_nat_nonempty: "fmt_u_nat n \<noteq> []"
  by (subst fmt_u_nat.simps) simp

lemma json_append_fits:
  assumes "json_pos s + length t < 65536"
  shows "json_append t s = Some (s\<lparr>json_buffer := json_buffer s @ t, json_pos := json_pos s + length t\<rparr>)"
  using assms by (simp add: json_append_def)

lemma emit_frame:
  assumes "length f < 65536" "f \<noteq> []"
  shows "json_append f (json_reset s) \<bind> (\<lambda>s1. g (json_flush s1)) = g (emit f s)"
  using assms by (simp add: json_append_def json_reset_def json_flush_def emit_def)

lemma length_input_frame: "length (input_frame n kind) \<le> 100 + length kind"
  using length_fmt_u[of n] by (simp add: input_frame_def)

lemma input_frame_nonempty: "input_frame n kind \<noteq> []"
  by (simp add: input_frame_def)


lemma strip_newline_line:
  assumes "newline \<notin> set line" "NUL \<notin> set line"
  shows "fgets 1024 (line @ newline # rest)
           = Some (take 1023 (line @ [newline]),
                   drop (length (take 1023 (line @ [newline]))) (line @ newline # rest))"
    and "strip_newline (take 1023 (line @ [newline])) = take 1023 line"
proof -
  have u: "upto_newline (line @ newline # rest) = line @ [newline]"
    using assms(1) by (induction line) auto
  show "fgets 1024 (line @ newline # rest)
           = Some (take 1023 (line @ [newline]),
                   drop (length (take 1023 (line @ [newline]))) (line @ newline # rest))"
    by (simp add: fgets_def u Let_def)
  have nn: "newline \<noteq> NUL" by (simp add: newline_def NUL_def)
  show "strip_newline (take 1023 (line @ [newline])) = take 1023 line"
  proof (cases "length line \<le> 1022")
    case True
    then have t: "take 1023 (line @ [newline]) = line @ [newline]" by simp
    have c: "c_string (line @ [newline]) = line @ [newline]"
      using assms(2) nn by (auto simp: c_string_def)
    show ?thesis using True by (simp add: t strip_newline_def strlen_def c Let_def)
  next
    case False
    then have t: "take 1023 (line @ [newline]) = take 1023 line" by simp
    have c: "c_string (take 1023 line) = take 1023 line"
      using assms(2) by (auto simp: c_string_def dest: in_set_takeD)
    have l: "length (take 1023 line) = 1023" using False by simp
    have "(1022::nat) < length line" using False by simp
    then have "line ! 1022 \<in> set line" by (rule nth_mem)
    then have "line ! 1022 \<noteq> newline" using assms(1) by auto
    then have "take 1023 line ! (1023 - 1) \<noteq> newline" by simp
    moreover have "min (length line) 1023 = 1023" using False by simp
    ultimately show ?thesis unfolding t by (simp add: strip_newline_def strlen_def c Let_def del: nth_take)
  qed
qed

lemma json_append_reset:
  assumes "length f < 65536"
  shows "json_append f (json_reset s) = Some ((json_reset s)\<lparr>json_buffer := f, json_pos := length f\<rparr>)"
  using assms by (simp add: json_append_def json_reset_def)

lemma json_flush_built:
  assumes "f \<noteq> []"
  shows "json_flush ((json_reset s)\<lparr>json_buffer := f, json_pos := length f\<rparr>) = emit f s"
  using assms by (simp add: json_reset_def json_flush_def emit_def)

lemma input_frame_fits: "length (input_frame n ''line'') < 65536" "length (input_frame n ''char'') < 65536"
  using length_input_frame[of n "''line''"] length_input_frame[of n "''char''"] by simp_all

lemma length_strip_newline: "length (strip_newline chunk) \<le> length chunk"
  by (simp add: strip_newline_def strlen_def c_string_def Let_def length_takeWhile_le)

lemma length_fgets:
  assumes "fgets n inp = Some (chunk, rest)"
  shows "length chunk \<le> n - 1" and "inp = chunk @ rest"
proof -
  from assms have c: "chunk = take (n - 1) (upto_newline inp)" and r: "rest = drop (length chunk) inp"
    by (auto simp: fgets_def Let_def split: if_splits)
  show "length chunk \<le> n - 1" by (simp add: c)
  have "take (length (upto_newline inp)) inp = upto_newline inp"
    by (induction inp) auto
  then have "take (length chunk) inp = chunk"
    by (metis c length_take take_take min.commute)
  then show "inp = chunk @ rest" by (metis r append_take_drop_id)
qed

subsection \<open>The event wait\<close>

lemma glk_select_char:
  assumes "find_request (windows s) (gli_windowlist s) = Some (Some a)"
    and "windows s a = Some w" and "\<not> line_request w" and "char_request w"
    and "fgets 1024 (stdin s) = Some (chunk, rest)"
  shows "glk_select K (Some e) s =
     Some (Some \<lparr>ev_type = evtype_CharInput, ev_win = Some a,
                 val1 = (case strip_newline chunk of [] \<Rightarrow> keycode_Return K | c # _ \<Rightarrow> of_char c),
                 val2 = 0\<rparr>,
           (emit (input_frame (win_id w) (if line_request_uni w then ''line'' else ''char'')) s)
             \<lparr>stdin := rest,
              io := io s @ [Put_line (input_frame (win_id w) (if line_request_uni w then ''line'' else ''char'')),
                            Get_line chunk],
              windows := (windows s)(a \<mapsto> w\<lparr>char_request := False\<rparr>)\<rparr>)"
  using assms
  by (cases "strip_newline chunk")
     (simp_all add: glk_select_def json_append_reset json_flush_built input_frame_fits
       input_frame_nonempty upd_window_def no_event_def emit_def)

lemma upto_newline_takeWhile:
  "upto_newline inp = takeWhile (\<lambda>c. c \<noteq> newline) inp @ take 1 (dropWhile (\<lambda>c. c \<noteq> newline) inp)"
  by (induction inp) auto

lemma length_takeWhile_lt: "x \<in> set xs \<Longrightarrow> \<not> P x \<Longrightarrow> length (takeWhile P xs) < length xs"
  by (induction xs) auto

lemma strip_newline_append:
  assumes "newline \<notin> set pre" and "suf = [] \<or> suf = [newline]"
  shows "strip_newline (pre @ suf) = c_string pre"
proof (cases "NUL \<in> set pre")
  case True
  then have c: "c_string (pre @ suf) = c_string pre"
    by (simp add: c_string_def takeWhile_append1)
  have lt: "length (c_string pre) < length pre"
    using True by (auto simp: c_string_def intro: length_takeWhile_lt)
  have "(pre @ suf) ! (length (c_string pre) - 1) \<noteq> newline"
  proof -
    have i: "length (c_string pre) - 1 < length pre" using lt by simp
    then have "(pre @ suf) ! (length (c_string pre) - 1) = pre ! (length (c_string pre) - 1)"
      by (simp add: nth_append)
    moreover have "pre ! (length (c_string pre) - 1) \<in> set pre" using i by (rule nth_mem)
    ultimately show ?thesis using assms(1) by auto
  qed
  then show ?thesis by (simp add: strip_newline_def strlen_def c Let_def)
next
  case False
  then have cp: "c_string pre = pre" by (auto simp: c_string_def)
  have nn: "newline \<noteq> NUL" by (simp add: newline_def NUL_def)
  from assms(2) show ?thesis
  proof
    assume s: "suf = []"
    have "pre ! (length pre - 1) \<noteq> newline" if "pre \<noteq> []"
    proof -
      have "pre ! (length pre - 1) \<in> set pre" using that by simp
      then show ?thesis using assms(1) by auto
    qed
    then show ?thesis by (auto simp: strip_newline_def strlen_def s cp Let_def)
  next
    assume s: "suf = [newline]"
    have c: "c_string (pre @ [newline]) = pre @ [newline]"
      using False nn by (auto simp: c_string_def)
    show ?thesis by (simp add: strip_newline_def strlen_def s c cp Let_def)
  qed
qed

lemma fgets_line:
  assumes "inp \<noteq> []"
  shows "\<exists>chunk rest. fgets 1024 inp = Some (chunk, rest)
           \<and> chunk = take 1023 (takeWhile (\<lambda>c. c \<noteq> newline) inp
                                  @ take 1 (dropWhile (\<lambda>c. c \<noteq> newline) inp))
           \<and> inp = chunk @ rest
           \<and> strip_newline chunk = c_string (take 1023 (takeWhile (\<lambda>c. c \<noteq> newline) inp))"
proof -
  let ?line = "takeWhile (\<lambda>c. c \<noteq> newline) inp"
  let ?t = "take 1 (dropWhile (\<lambda>c. c \<noteq> newline) inp)"
  let ?chunk = "take 1023 (?line @ ?t)"
  have nl: "newline \<notin> set (take 1023 ?line)" by (auto dest: set_takeWhileD in_set_takeD)
  have t: "?t = [] \<or> ?t = [newline]"
  proof (cases "dropWhile (\<lambda>c. c \<noteq> newline) inp")
    case Nil
    then show ?thesis by simp
  next
    case (Cons c r)
    then have "c = newline" by (metis (mono_tags, lifting) hd_dropWhile list.distinct(1) list.sel(1))
    then show ?thesis using Cons by simp
  qed
  have t': "take (1023 - length ?line) ?t = [] \<or> take (1023 - length ?line) ?t = [newline]"
    using t by (cases "1023 - length ?line") auto
  have ch: "?chunk = take 1023 ?line @ take (1023 - length ?line) ?t" by simp
  have f: "fgets 1024 inp = Some (?chunk, drop (length ?chunk) inp)"
    using assms by (simp add: fgets_def upto_newline_takeWhile Let_def)
  have "inp = (?line @ ?t) @ drop 1 (dropWhile (\<lambda>c. c \<noteq> newline) inp)"
    by (metis append_assoc append_take_drop_id takeWhile_dropWhile_id)
  then have "inp = ?chunk @ (drop 1023 (?line @ ?t) @ drop 1 (dropWhile (\<lambda>c. c \<noteq> newline) inp))"
    by (metis append_assoc append_take_drop_id)
  then have "inp = ?chunk @ drop (length ?chunk) inp"
    by (metis append_eq_conv_conj)
  moreover have "strip_newline ?chunk = c_string (take 1023 ?line)"
    unfolding ch by (rule strip_newline_append[OF nl t'])
  ultimately show ?thesis using f by blast
qed

lemma create_frame_fits: "length (create_frame n t) < 65536" "create_frame n t \<noteq> []"
  using length_fmt_u[of n] length_fmt_u[of t] by (simp_all add: create_frame_def)

lemma one_window_state:
  "one_window inp = Some (Some 0,
     (emit (create_frame 1 3) (initial_state inp))
       \<lparr>windows := [0 \<mapsto> zero_window\<lparr>win_magicnum := MAGIC_WINDOW_NUM, win_type := 3, win_id := 1,
                                          win_str := Some 0\<rparr>],
        streams := [0 \<mapsto> zero_stream\<lparr>str_magicnum := MAGIC_STREAM_NUM, str_id := 1, writable := True,
                                          str_win := Some 0\<rparr>],
        gli_rootwin := Some 0, gli_windowlist := Some 0, gli_streamlist := Some 0,
        gli_window_id_counter := 2, gli_stream_id_counter := 2\<rparr>)"
  by (simp add: one_window_def glk_window_open_def gli_stream_open_window_def gli_stream_new_def
      upd_stream_def upd_window_def initial_state_def json_append_reset json_flush_built
      create_frame_fits emit_def zero_window_def zero_stream_def)

text \<open>
  C7, amended. The scan finds window \<open>a\<close>, which has a character request and no line
  request, and standard input is not at its end; the line is the bytes before the first
  newline. Then \<^verbatim>\<open>glk_select\<close> returns a character event for \<open>a\<close> whose value is the
  first byte of the line, or \<^verbatim>\<open>keycode_Return\<close> when the line is empty or begins with a
  NUL, and the only change to the windows is that the character request of \<open>a\<close> is
  cleared.
\<close>

theorem glk_select_char_request:
  assumes "find_request (windows s) (gli_windowlist s) = Some (Some a)"
    and "windows s a = Some w" and "char_request w" and "\<not> line_request w"
    and "stdin s \<noteq> []"
  shows "\<exists>s'. glk_select K (Some e) s =
           Some (Some \<lparr>ev_type = evtype_CharInput, ev_win = Some a,
                       val1 = (case takeWhile (\<lambda>c. c \<noteq> newline) (stdin s) of
                                 [] \<Rightarrow> keycode_Return K
                               | c # _ \<Rightarrow> if c = NUL then keycode_Return K else of_char c),
                       val2 = 0\<rparr>, s')
         \<and> windows s' = (windows s)(a \<mapsto> w\<lparr>char_request := False\<rparr>)"
proof -
  let ?line = "takeWhile (\<lambda>c. c \<noteq> newline) (stdin s)"
  obtain chunk rest where f: "fgets 1024 (stdin s) = Some (chunk, rest)"
    and st: "strip_newline chunk = c_string (take 1023 ?line)"
    using fgets_line[OF assms(5)] by blast
  have "(case strip_newline chunk of [] \<Rightarrow> keycode_Return K | c # _ \<Rightarrow> of_char c)
        = (case ?line of [] \<Rightarrow> keycode_Return K
           | c # _ \<Rightarrow> if c = NUL then keycode_Return K else of_char c)"
    unfolding st by (cases ?line) (simp_all add: c_string_def)
  then show ?thesis
    using glk_select_char[OF assms(1,2,4,3) f, of K e] by simp
qed

theorem glk_select_char_request_witness:
  "do { (win, s1) \<leftarrow> one_window ''x\<newline>'';
        s2 \<leftarrow> glk_request_char_event win s1;
        (ev, s3) \<leftarrow> glk_select glk_h_0_7 (Some no_event) s2;
        Some (ev, map_option char_request (windows s3 0)) }
   = Some (Some \<lparr>ev_type = evtype_CharInput, ev_win = Some 0, val1 = 120, val2 = 0\<rparr>, Some False)"
proof -
  let ?w = "zero_window\<lparr>win_magicnum := MAGIC_WINDOW_NUM, win_type := 3, win_id := 1,
                        win_str := Some 0, char_request := True\<rparr>"
  obtain s2 where s2: "do { (win, s1) \<leftarrow> one_window ''x\<newline>''; glk_request_char_event win s1 } = Some s2"
    and w: "windows s2 0 = Some ?w" and l: "gli_windowlist s2 = Some 0"
    and i: "stdin s2 = ''x\<newline>''"
    by (simp add: one_window_state glk_request_char_event_def upd_window_def emit_def initial_state_def)
  have fr: "find_request (windows s2) (gli_windowlist s2) = Some (Some 0)"
    by (subst find_request.simps) (simp add: w l zero_window_def)
  have ln: "takeWhile (\<lambda>c. c \<noteq> newline) (stdin s2) = ''x''" by (simp add: i newline_def)
  have "\<exists>s'. glk_select glk_h_0_7 (Some no_event) s2 =
           Some (Some \<lparr>ev_type = evtype_CharInput, ev_win = Some 0,
                       val1 = (case ''x'' of [] \<Rightarrow> keycode_Return glk_h_0_7
                               | c # _ \<Rightarrow> if c = NUL then keycode_Return glk_h_0_7 else of_char c),
                       val2 = 0\<rparr>, s')
         \<and> windows s' = (windows s2)(0 \<mapsto> ?w\<lparr>char_request := False\<rparr>)"
    by (rule glk_select_char_request[OF fr w, where K = glk_h_0_7 and e = no_event, unfolded ln])
       (simp_all add: i zero_window_def)
  then obtain s3 where "glk_select glk_h_0_7 (Some no_event) s2 =
           Some (Some \<lparr>ev_type = evtype_CharInput, ev_win = Some 0, val1 = 120, val2 = 0\<rparr>, s3)"
     and "windows s3 = (windows s2)(0 \<mapsto> ?w\<lparr>char_request := False\<rparr>)"
    by (auto simp: NUL_def)
  with s2 show ?thesis
    by (cases "one_window ''x\<newline>''") (auto simp: zero_window_def split: prod.splits)
qed

text \<open>
  C7 as stated fails for a line that begins with a NUL: the line \<open>NUL abc\<close> is not empty,
  and the character event carries \<^verbatim>\<open>keycode_Return\<close>, not the first byte.
\<close>

theorem char_request_nul_line:
  "do { (win, s1) \<leftarrow> one_window (NUL # ''abc\<newline>'');
        s2 \<leftarrow> glk_request_char_event win s1;
        (ev, s3) \<leftarrow> glk_select glk_h_0_7 (Some no_event) s2;
        Some (takeWhile (\<lambda>c. c \<noteq> newline) (stdin s2), map_option val1 ev) }
   = Some (NUL # ''abc'', Some (keycode_Return glk_h_0_7))"
proof -
  let ?w = "zero_window\<lparr>win_magicnum := MAGIC_WINDOW_NUM, win_type := 3, win_id := 1,
                        win_str := Some 0, char_request := True\<rparr>"
  obtain s2 where s2: "do { (win, s1) \<leftarrow> one_window (NUL # ''abc\<newline>'');
                            glk_request_char_event win s1 } = Some s2"
    and w: "windows s2 0 = Some ?w" and l: "gli_windowlist s2 = Some 0"
    and i: "stdin s2 = NUL # ''abc\<newline>''"
    by (simp add: one_window_state glk_request_char_event_def upd_window_def emit_def initial_state_def)
  have fr: "find_request (windows s2) (gli_windowlist s2) = Some (Some 0)"
    by (subst find_request.simps) (simp add: w l zero_window_def)
  have ln: "takeWhile (\<lambda>c. c \<noteq> newline) (stdin s2) = NUL # ''abc''"
    by (simp add: i newline_def NUL_def)
  have fg: "fgets 1024 (stdin s2) = Some (NUL # ''abc\<newline>'', [])"
    by (simp add: i fgets_def newline_def NUL_def)
  have sn: "strip_newline (NUL # ''abc\<newline>'') = []"
    by (simp add: strip_newline_def strlen_def c_string_def)
  have "glk_select glk_h_0_7 (Some no_event) s2 =
     Some (Some \<lparr>ev_type = evtype_CharInput, ev_win = Some 0,
                 val1 = keycode_Return glk_h_0_7, val2 = 0\<rparr>,
           (emit (input_frame (win_id ?w) (if line_request_uni ?w then ''line'' else ''char'')) s2)
             \<lparr>stdin := [],
              io := io s2 @ [Put_line (input_frame (win_id ?w) (if line_request_uni ?w then ''line'' else ''char'')),
                            Get_line (NUL # ''abc\<newline>'')],
              windows := (windows s2)(0 \<mapsto> ?w\<lparr>char_request := False\<rparr>)\<rparr>)"
    using glk_select_char[OF fr w _ _ fg, of glk_h_0_7 no_event]
    by (simp add: sn zero_window_def)
  with s2 ln show ?thesis
    by (cases "one_window (NUL # ''abc\<newline>'')") (auto split: prod.splits)
qed


lemma glk_select_uni:
  assumes "find_request (windows s) (gli_windowlist s) = Some (Some a)"
    and "windows s a = Some w" and "\<not> line_request w" and "\<not> char_request w"
    and "fgets 1024 (stdin s) = Some (chunk, rest)"
  shows "glk_select K (Some e) s =
     Some (Some no_event,
           (emit (input_frame (win_id w) (if line_request_uni w then ''line'' else ''char'')) s)
             \<lparr>stdin := rest,
              io := io s @ [Put_line (input_frame (win_id w) (if line_request_uni w then ''line'' else ''char'')),
                            Get_line chunk]\<rparr>)"
  using assms
  by (simp add: glk_select_def json_append_reset json_flush_built input_frame_fits
       input_frame_nonempty emit_def)

text \<open>
  C10, amended. The scan finds window \<open>a\<close>, which has a Unicode request and neither a
  character nor a line request, and standard input is not at its end. Then
  \<^verbatim>\<open>glk_select\<close> prints one input frame for \<open>a\<close> (kind line when the Unicode line request
  is set), takes from standard input the first 1023 bytes of the line with its newline
  (all of it only when the line is shorter than 1023 bytes) and leaves the rest there,
  returns the event with type none, and changes no window (the Unicode flags stay) and
  no array of the caller.
\<close>

theorem glk_select_unicode_request_only:
  assumes "find_request (windows s) (gli_windowlist s) = Some (Some a)"
    and "windows s a = Some w" and "\<not> char_request w" and "\<not> line_request w"
    and "char_request_uni w \<or> line_request_uni w"
    and "stdin s \<noteq> []"
  shows "\<exists>chunk rest s'.
           fgets 1024 (stdin s) = Some (chunk, rest)
         \<and> chunk = take 1023 (takeWhile (\<lambda>c. c \<noteq> newline) (stdin s)
                                  @ take 1 (dropWhile (\<lambda>c. c \<noteq> newline) (stdin s)))
         \<and> stdin s = chunk @ rest
         \<and> glk_select K (Some e) s = Some (Some no_event, s')
         \<and> io s' = io s @ [Put_line (input_frame (win_id w)
                                        (if line_request_uni w then ''line'' else ''char'')),
                             Get_line chunk]
         \<and> stdin s' = rest
         \<and> windows s' = windows s \<and> mem_uni s' = mem_uni s \<and> mem s' = mem s
         \<and> \<not> exited s' = (\<not> exited s)"
proof -
  obtain chunk rest where f: "fgets 1024 (stdin s) = Some (chunk, rest)"
    and c: "chunk = take 1023 (takeWhile (\<lambda>c. c \<noteq> newline) (stdin s)
                                  @ take 1 (dropWhile (\<lambda>c. c \<noteq> newline) (stdin s)))"
    and r: "stdin s = chunk @ rest"
    using fgets_line[OF assms(6)] by blast
  have "glk_select K (Some e) s = Some (Some no_event,
           (emit (input_frame (win_id w) (if line_request_uni w then ''line'' else ''char'')) s)
             \<lparr>stdin := rest,
              io := io s @ [Put_line (input_frame (win_id w) (if line_request_uni w then ''line'' else ''char'')),
                            Get_line chunk]\<rparr>)"
    (is "_ = Some (_, ?s')")
    by (rule glk_select_uni[OF assms(1,2,4,3) f])
  moreover have "io ?s' = io s @ [Put_line (input_frame (win_id w)
                                        (if line_request_uni w then ''line'' else ''char'')),
                             Get_line chunk]"
    and "stdin ?s' = rest" and "windows ?s' = windows s" and "mem_uni ?s' = mem_uni s"
    and "mem ?s' = mem s" and "\<not> exited ?s' = (\<not> exited s)"
    by (simp_all add: emit_def)
  ultimately show ?thesis
    using f c r by blast
qed

theorem glk_select_unicode_request_only_witness:
  "do { (win, s1) \<leftarrow> one_window ''abc\<newline>rest'';
        s2 \<leftarrow> glk_request_line_event_uni win (Some 5) 8 0 s1;
        (ev, s3) \<leftarrow> glk_select glk_h_0_7 (Some no_event) s2;
        Some (ev, drop (length (io s2)) (io s3), stdin s3,
              map_option line_request_uni (windows s3 0), mem_uni s3 = mem_uni s2) }
   = Some (Some no_event,
           [Put_line ''{\"type\":\"input\",\"gen\":1,\"windows\":[{\"id\":1,\"type\":\"line\"}]}'',
            Get_line ''abc\<newline>''],
           ''rest'', Some True, True)"
proof -
  let ?w = "zero_window\<lparr>win_magicnum := MAGIC_WINDOW_NUM, win_type := 3, win_id := 1,
              win_str := Some 0, line_request_uni := True, line_buffer_uni := Some 5, line_buflen := 8\<rparr>"
  obtain s2 where s2: "do { (win, s1) \<leftarrow> one_window ''abc\<newline>rest'';
                            glk_request_line_event_uni win (Some 5) 8 0 s1 } = Some s2"
    and w: "windows s2 0 = Some ?w" and l: "gli_windowlist s2 = Some 0"
    and i: "stdin s2 = ''abc\<newline>rest''"
    by (simp add: one_window_state glk_request_line_event_uni_def upd_window_def emit_def initial_state_def)
  have fr: "find_request (windows s2) (gli_windowlist s2) = Some (Some 0)"
    by (subst find_request.simps) (simp add: w l zero_window_def)
  have fg: "fgets 1024 (stdin s2) = Some (''abc\<newline>'', ''rest'')"
    by (simp add: i fgets_def newline_def)
  have ne: "stdin s2 \<noteq> []" by (simp add: i)
  have fmt: "input_frame 1 ''line'' = ''{\"type\":\"input\",\"gen\":1,\"windows\":[{\"id\":1,\"type\":\"line\"}]}''"
    by (simp add: input_frame_def fmt_u_def fmt_u_nat.simps digit_char_def)
  obtain s3 where "glk_select glk_h_0_7 (Some no_event) s2 = Some (Some no_event, s3)"
    and "io s3 = io s2 @ [Put_line (input_frame 1 ''line''), Get_line ''abc\<newline>'']"
    and "stdin s3 = ''rest''" and "windows s3 = windows s2" and "mem_uni s3 = mem_uni s2"
    using glk_select_unicode_request_only[OF fr w _ _ _ ne, where K = glk_h_0_7 and e = no_event] fg
    by (auto simp: zero_window_def)
  with s2 w show ?thesis
    by (cases "one_window ''abc\<newline>rest''") (auto simp: fmt zero_window_def split: prod.splits)
qed

text \<open>
  C10 as stated fails for a long line: of a line of 1030 bytes, the call takes 1023;
  the other 7 and the newline stay on standard input.
\<close>

theorem unicode_request_long_line:
  "do { (win, s1) \<leftarrow> one_window (replicate 1030 CHR ''a'' @ [newline]);
        s2 \<leftarrow> glk_request_line_event_uni win (Some 5) 8 0 s1;
        (ev, s3) \<leftarrow> glk_select glk_h_0_7 (Some no_event) s2;
        Some (ev, stdin s3) }
   = Some (Some no_event, replicate 7 CHR ''a'' @ [newline])"
proof -
  let ?line = "replicate 1030 CHR ''a''"
  let ?w = "zero_window\<lparr>win_magicnum := MAGIC_WINDOW_NUM, win_type := 3, win_id := 1,
              win_str := Some 0, line_request_uni := True, line_buffer_uni := Some 5, line_buflen := 8\<rparr>"
  obtain s2 where s2: "do { (win, s1) \<leftarrow> one_window (?line @ [newline]);
                            glk_request_line_event_uni win (Some 5) 8 0 s1 } = Some s2"
    and w: "windows s2 0 = Some ?w" and l: "gli_windowlist s2 = Some 0"
    and i: "stdin s2 = ?line @ newline # []"
    by (simp add: one_window_state glk_request_line_event_uni_def upd_window_def emit_def initial_state_def)
  have fr: "find_request (windows s2) (gli_windowlist s2) = Some (Some 0)"
    by (subst find_request.simps) (simp add: w l zero_window_def)
  have nl: "newline \<notin> set ?line" and nn: "NUL \<notin> set ?line"
    by (simp_all add: newline_def NUL_def)
  have ch: "take 1023 (?line @ [newline]) = replicate 1023 CHR ''a''" by simp
  have fg: "fgets 1024 (stdin s2) = Some (replicate 1023 CHR ''a'', replicate 7 CHR ''a'' @ [newline])"
    using strip_newline_line(1)[OF nl nn, of "[]"] unfolding i ch by simp
  have "\<exists>s3. glk_select glk_h_0_7 (Some no_event) s2 = Some (Some no_event, s3)
           \<and> stdin s3 = replicate 7 CHR ''a'' @ [newline]"
    using glk_select_uni[OF fr w _ _ fg, of glk_h_0_7 no_event]
    by (simp add: zero_window_def)
  with s2 show ?thesis
    by (cases "one_window (?line @ [newline])") (auto split: prod.splits)
qed

lemma glk_select_line:
  assumes "find_request (windows s) (gli_windowlist s) = Some (Some a)"
    and "windows s a = Some w" and "line_request w" and "line_buffer w = Some b"
    and "mem s b = Some arr" and "length arr = unat (line_buflen w)" and "line_buflen w \<noteq> 0"
    and "fgets 1024 (stdin s) = Some (chunk, rest)"
    and "k = min (length (strip_newline chunk)) (unat (line_buflen w) - 1)"
  shows "glk_select K (Some e) s =
     Some (Some \<lparr>ev_type = evtype_LineInput, ev_win = Some a, val1 = of_nat k, val2 = 0\<rparr>,
           (emit (input_frame (win_id w) ''line'') s)
             \<lparr>stdin := rest,
              io := io s @ [Put_line (input_frame (win_id w) ''line''), Get_line chunk],
              mem := (mem s)(b \<mapsto> take k (strip_newline chunk) @ NUL # drop (Suc k) arr),
              windows := (windows s)(a \<mapsto> w\<lparr>line_request := False, line_buffer := None\<rparr>)\<rparr>)"
proof -
  let ?input = "strip_newline chunk"
  let ?n = "length ?input"
  let ?cap = "unat (line_buflen w)"
  let ?copylen = "if (of_nat ?n :: glui32) > line_buflen w - 1 then line_buflen w - 1 else of_nat ?n"
  have n: "?n \<le> 1023"
    using length_strip_newline[of chunk] length_fgets(1)[OF assms(8)] by simp
  then have un: "unat (of_nat ?n :: glui32) = ?n" by (simp add: unat_of_nat)
  have cap1: "unat (line_buflen w - 1) = ?cap - 1"
    using assms(7) by (simp add: unat_minus_one)
  have cl: "unat ?copylen = k"
    by (auto simp: assms(9) un cap1 word_less_nat_alt min_def)
  have "k < 2 ^ 32" using n assms(9) by simp
  then have uk: "unat (of_nat k :: glui32) = k" by (simp add: unat_of_nat)
  then have cl': "?copylen = of_nat k"
    using cl by (simp only: word_unat_eq_iff)
  have cap: "0 < ?cap" using assms(7) by (simp add: unat_gt_0)
  have k1: "k < length arr" using assms(6,9) cap by simp
  have k2: "k \<le> ?n" using assms(9) by simp
  have upd: "(take k ?input @ drop (length (take k ?input)) arr)[k := NUL]
              = take k ?input @ NUL # drop (Suc k) arr"
  proof -
    have l: "length (take k ?input) = k" using k2 by simp
    have "drop k arr = arr ! k # drop (Suc k) arr" using k1 by (simp add: Cons_nth_drop_Suc)
    then show ?thesis using l by (simp add: list_update_append)
  qed
  have mc1: "memcpy b (take k ?input) s0
             = Some (s0\<lparr>mem := (mem s0)(b \<mapsto> take k ?input @ drop k arr)\<rparr>)"
    if "mem s0 b = Some arr" for s0
    using that k1 k2 by (simp add: memcpy_def)
  have mc2: "store_char b k NUL s0
             = Some (s0\<lparr>mem := (mem s0)(b \<mapsto> take k ?input @ NUL # drop (Suc k) arr)\<rparr>)"
    if "mem s0 b = Some (take k ?input @ drop k arr)" for s0
    using that k1 k2 upd by (simp add: store_char_def)
  show ?thesis
    using assms(1-5,8)
    by (simp add: glk_select_def json_append_reset json_flush_built input_frame_fits
       input_frame_nonempty Let_def cl' uk mc1 mc2 upd_window_def no_event_def emit_def
       del: of_nat_min)
qed

text \<open>
  C1, amended. The scan finds window \<open>a\<close>, which has a line request into the caller's
  array \<open>b\<close> whose capacity, at least 1, is the length given with the request; standard
  input is not at its end. The text read is the first 1023 bytes of the next line (the
  bytes before the first newline), cut before the first NUL among them if there is
  one. Then \<^verbatim>\<open>glk_select\<close> prints exactly one input frame for \<open>a\<close> of kind line, then
  takes one chunk from standard input, stores the first \<open>k\<close> bytes of the text and a NUL
  behind them in the array, returns a line event for \<open>a\<close> with value \<open>k\<close>, and clears the
  line request; \<open>k\<close> is the smaller of the length of the text and the capacity less
  one. With capacity 4 and the line \<open>hello\<close> the array receives \<open>hel\<close>.
\<close>

theorem glk_select_line_request:
  assumes "find_request (windows s) (gli_windowlist s) = Some (Some a)"
    and "windows s a = Some w" and "line_request w" and "line_buffer w = Some b"
    and "mem s b = Some arr" and "length arr = unat (line_buflen w)" and "line_buflen w \<noteq> 0"
    and "stdin s \<noteq> []"
    and "cs = c_string (take 1023 (takeWhile (\<lambda>c. c \<noteq> newline) (stdin s)))"
    and "k = min (length cs) (unat (line_buflen w) - 1)"
  shows "\<exists>chunk rest s'.
           fgets 1024 (stdin s) = Some (chunk, rest)
         \<and> glk_select K (Some e) s =
             Some (Some \<lparr>ev_type = evtype_LineInput, ev_win = Some a, val1 = of_nat k, val2 = 0\<rparr>, s')
         \<and> io s' = io s @ [Put_line (input_frame (win_id w) ''line''), Get_line chunk]
         \<and> stdin s' = rest
         \<and> mem s' = (mem s)(b \<mapsto> take k cs @ NUL # drop (Suc k) arr)
         \<and> windows s' = (windows s)(a \<mapsto> w\<lparr>line_request := False, line_buffer := None\<rparr>)"
proof -
  obtain chunk rest where f: "fgets 1024 (stdin s) = Some (chunk, rest)"
    and st: "strip_newline chunk = cs"
    using fgets_line[OF assms(8)] assms(9) by blast
  have k: "k = min (length (strip_newline chunk)) (unat (line_buflen w) - 1)"
    by (simp add: st assms(10))
  show ?thesis
    using glk_select_line[OF assms(1-7) f k, of K e] f by (simp add: emit_def st)
qed

lemma line_request_pending_state:
  "line_request_pending inp n = Some
     ((emit (create_frame 1 3) (initial_state inp))
       \<lparr>windows := [0 \<mapsto> zero_window\<lparr>win_magicnum := MAGIC_WINDOW_NUM, win_type := 3, win_id := 1,
                                          win_str := Some 0, line_request := True,
                                          line_buffer := Some 0, line_buflen := of_nat n\<rparr>],
        streams := [0 \<mapsto> zero_stream\<lparr>str_magicnum := MAGIC_STREAM_NUM, str_id := 1, writable := True,
                                          str_win := Some 0\<rparr>],
        gli_rootwin := Some 0, gli_windowlist := Some 0, gli_streamlist := Some 0,
        gli_window_id_counter := 2, gli_stream_id_counter := 2,
        mem := [0 \<mapsto> replicate n NUL]\<rparr>)"
  by (simp add: line_request_pending_def glk_window_open_def gli_stream_open_window_def gli_stream_new_def
      upd_stream_def upd_window_def initial_state_def json_append_reset json_flush_built
      create_frame_fits emit_def zero_window_def zero_stream_def glk_request_line_event_def)

theorem glk_select_line_request_witness:
  "do { s \<leftarrow> line_request_pending ''hello\<newline>'' 4;
        (ev, s') \<leftarrow> glk_select glk_h_0_7 (Some no_event) s;
        Some (ev, drop (length (io s)) (io s'), mem s' 0, map_option line_request (windows s' 0)) }
   = Some (Some \<lparr>ev_type = evtype_LineInput, ev_win = Some 0, val1 = 3, val2 = 0\<rparr>,
           [Put_line ''{\"type\":\"input\",\"gen\":1,\"windows\":[{\"id\":1,\"type\":\"line\"}]}'',
            Get_line ''hello\<newline>''],
           Some (''hel'' @ [NUL]), Some False)"
proof -
  let ?w = "zero_window\<lparr>win_magicnum := MAGIC_WINDOW_NUM, win_type := 3, win_id := 1,
              win_str := Some 0, line_request := True, line_buffer := Some 0, line_buflen := 4\<rparr>"
  obtain s where s: "line_request_pending ''hello\<newline>'' 4 = Some s"
    and w: "windows s 0 = Some ?w" and l: "gli_windowlist s = Some 0"
    and i: "stdin s = ''hello\<newline>''" and m: "mem s 0 = Some (replicate 4 NUL)"
    by (simp add: line_request_pending_state emit_def initial_state_def)
  have fr: "find_request (windows s) (gli_windowlist s) = Some (Some 0)"
    by (subst find_request.simps) (simp add: w l zero_window_def)
  have ln: "takeWhile (\<lambda>c. c \<noteq> newline) (stdin s) = ''hello''" by (simp add: i newline_def)
  have fg: "fgets 1024 (stdin s) = Some (''hello\<newline>'', [])"
    by (simp add: i fgets_def newline_def)
  have fmt: "input_frame 1 ''line'' = ''{\"type\":\"input\",\"gen\":1,\"windows\":[{\"id\":1,\"type\":\"line\"}]}''"
    by (simp add: input_frame_def fmt_u_def fmt_u_nat.simps digit_char_def)
  have "\<exists>chunk rest s'.
           fgets 1024 (stdin s) = Some (chunk, rest)
         \<and> glk_select glk_h_0_7 (Some no_event) s =
             Some (Some \<lparr>ev_type = evtype_LineInput, ev_win = Some 0, val1 = of_nat 3, val2 = 0\<rparr>, s')
         \<and> io s' = io s @ [Put_line (input_frame (win_id ?w) ''line''), Get_line chunk]
         \<and> stdin s' = rest
         \<and> mem s' = (mem s)(0 \<mapsto> take 3 ''hello'' @ NUL # drop (Suc 3) (replicate 4 NUL))
         \<and> windows s' = (windows s)(0 \<mapsto> ?w\<lparr>line_request := False, line_buffer := None\<rparr>)"
    by (rule glk_select_line_request[OF fr w _ _ m, where k = "3" and cs = "''hello''" and K = glk_h_0_7 and e = no_event])
       (simp_all add: i newline_def zero_window_def c_string_def NUL_def)
  then obtain s' where "glk_select glk_h_0_7 (Some no_event) s =
             Some (Some \<lparr>ev_type = evtype_LineInput, ev_win = Some 0, val1 = 3, val2 = 0\<rparr>, s')"
     and "io s' = io s @ [Put_line (input_frame 1 ''line''), Get_line ''hello\<newline>'']"
     and "mem s' 0 = Some (''hel'' @ [NUL])"
     and "windows s' 0 = Some (?w\<lparr>line_request := False, line_buffer := None\<rparr>)"
    using fg by (auto simp: zero_window_def)
  then show ?thesis by (simp add: s fmt zero_window_def)
qed

text \<open>
  C1 as stated fails for a long line: of a line of 1030 bytes, with a buffer of
  capacity 2000, one call delivers 1023 bytes; the other 7 stay on standard input.
\<close>

theorem long_line_cut_at_1023:
  "do { s \<leftarrow> line_request_pending (replicate 1030 CHR ''a'' @ [newline]) 2000;
        (ev, s') \<leftarrow> glk_select glk_h_0_7 (Some no_event) s;
        Some (map_option val1 ev, stdin s') }
   = Some (Some 1023, replicate 7 CHR ''a'' @ [newline])"
proof -
  let ?line = "replicate 1030 CHR ''a''"
  let ?w = "zero_window\<lparr>win_magicnum := MAGIC_WINDOW_NUM, win_type := 3, win_id := 1,
              win_str := Some 0, line_request := True, line_buffer := Some 0, line_buflen := 2000\<rparr>"
  obtain s where s: "line_request_pending (?line @ [newline]) 2000 = Some s"
    and w: "windows s 0 = Some ?w" and l: "gli_windowlist s = Some 0"
    and i: "stdin s = ?line @ newline # []" and m: "mem s 0 = Some (replicate 2000 NUL)"
    by (simp add: line_request_pending_state emit_def initial_state_def)
  have fr: "find_request (windows s) (gli_windowlist s) = Some (Some 0)"
    by (subst find_request.simps) (simp add: w l zero_window_def)
  have nl: "newline \<notin> set ?line" and nn: "NUL \<notin> set ?line"
    by (simp_all add: newline_def NUL_def)
  have ch: "take 1023 (?line @ [newline]) = replicate 1023 CHR ''a''" by simp
  have fg: "fgets 1024 (stdin s) = Some (replicate 1023 CHR ''a'', replicate 7 CHR ''a'' @ [newline])"
    using strip_newline_line(1)[OF nl nn, of "[]"] unfolding i ch by simp
  have sn: "strip_newline (replicate 1023 CHR ''a'') = replicate 1023 CHR ''a''"
    using strip_newline_line(2)[OF nl nn] unfolding ch by simp
  have k: "(1023::nat) = min (length (strip_newline (replicate 1023 CHR ''a''))) (unat (line_buflen ?w) - 1)"
    by (simp add: sn)
  show ?thesis
    using glk_select_line[OF fr w _ _ m _ _ fg k, of glk_h_0_7 no_event]
    by (simp add: s zero_window_def)
qed

subsection \<open>Primitive updates\<close>

lemma upd_streamE:
  assumes "upd_stream a f s = Some s'"
  obtains x where "streams s a = Some x" and "s' = s\<lparr>streams := (streams s)(a \<mapsto> f x)\<rparr>"
  using assms by (auto simp: upd_stream_def split: bind_splits)

lemma upd_windowE:
  assumes "upd_window a f s = Some s'"
  obtains x where "windows s a = Some x" and "s' = s\<lparr>windows := (windows s)(a \<mapsto> f x)\<rparr>"
  using assms by (auto simp: upd_window_def split: bind_splits)

lemma upd_filerefE:
  assumes "upd_fileref a f s = Some s'"
  obtains x where "filerefs s a = Some x" and "s' = s\<lparr>filerefs := (filerefs s)(a \<mapsto> f x)\<rparr>"
  using assms by (auto simp: upd_fileref_def split: bind_splits)

lemma store_charE:
  assumes "store_char b i c s = Some s'"
  obtains arr where "mem s b = Some arr" and "i < length arr"
    and "s' = s\<lparr>mem := (mem s)(b \<mapsto> arr[i := c])\<rparr>"
  using assms by (auto simp: store_char_def split: bind_splits if_splits)

lemma store_uniE:
  assumes "store_uni b i c s = Some s'"
  obtains arr where "mem_uni s b = Some arr" and "i < length arr"
    and "s' = s\<lparr>mem_uni := (mem_uni s)(b \<mapsto> arr[i := c])\<rparr>"
  using assms by (auto simp: store_uni_def split: bind_splits if_splits)

lemma memcpyE:
  assumes "memcpy b bytes s = Some s'"
  obtains arr where "mem s b = Some arr" and "length bytes \<le> length arr"
    and "s' = s\<lparr>mem := (mem s)(b \<mapsto> bytes @ drop (length bytes) arr)\<rparr>"
  using assms by (auto simp: memcpy_def split: bind_splits if_splits)

lemma fputcE:
  assumes "fputc c fa s = Some s'"
  obtains fs where "s' = s\<lparr>files := fs\<rparr>"
  using assms by (auto simp: fputc_def Let_def split: bind_splits)

lemma fgetcE:
  assumes "fgetc fa s = Some (v, s')"
  obtains fs where "s' = s\<lparr>files := fs\<rparr>"
  using assms by (auto simp: fgetc_def split: bind_splits if_splits) (metis glk_state.update_convs(16) glk_state.surjective)

lemma fseekE:
  assumes "fseek fa pos mode s = Some s'"
  obtains fs where "s' = s\<lparr>files := fs\<rparr>"
  using assms by (auto simp: fseek_def Let_def split: bind_splits if_splits) (metis glk_state.update_convs(16) glk_state.surjective)

lemma fcloseE:
  assumes "fclose fa s = Some s'"
  obtains "fa \<in> dom (files s)" and "s' = s\<lparr>files := (files s)(fa := None)\<rparr>"
  using assms by (auto simp: fclose_def split: bind_splits)

subsection \<open>Text written to a window\<close>

lemma length_escape_char: "length (escape_char c) \<le> 6"
  by (simp add: escape_char_def fmt_04x_def)

lemma json_append_escaped_chars_fits:
  assumes "json_pos s + length (concat (map escape_char cs)) < 65536"
  shows "json_append_escaped_chars cs s =
     Some (s\<lparr>json_buffer := json_buffer s @ concat (map escape_char cs),
             json_pos := json_pos s + length (concat (map escape_char cs))\<rparr>)"
  using assms
proof (induction cs arbitrary: s)
  case Nil
  then show ?case by simp
next
  case (Cons c cs)
  then have "json_pos s + length (escape_char c) < 65536" by simp
  then have a: "json_append (escape_char c) s =
      Some (s\<lparr>json_buffer := json_buffer s @ escape_char c, json_pos := json_pos s + length (escape_char c)\<rparr>)"
    by (rule json_append_fits)
  show ?case using Cons by (simp add: a add.assoc)
qed

lemma length_c_string_pair: "length (concat (map escape_char (c_string [ch, NUL]))) \<le> 6"
  using length_escape_char[of ch] by (simp add: c_string_def)

lemma length_text_frame_head: "length (text_frame_head n) \<le> 60"
  using length_fmt_u[of n] by (simp add: text_frame_head_def)

lemma emit_text_frame:
  "json_append (text_frame_head n) (json_reset s) \<bind>
     (\<lambda>s2. json_append_escaped_string [ch, NUL] s2 \<bind>
        (\<lambda>s3. json_append ''}]}'' s3 \<bind> (\<lambda>s4. Some (json_flush s4))))
   = Some (emit (text_frame n ch) s)"
proof -
  let ?e = "concat (map escape_char (c_string [ch, NUL]))"
  have h: "length (text_frame_head n) \<le> 60" by (rule length_text_frame_head)
  have e: "length ?e \<le> 6" by (rule length_c_string_pair)
  show ?thesis
    using h e
    by (simp add: json_append_reset json_append_escaped_string_def json_append_fits
        json_append_escaped_chars_fits json_reset_def json_flush_def emit_def text_frame_def)
qed

lemma put_char_window:
  assumes "streams s a = Some st" and "writable st" and "str_type st = 0"
    and "str_win st = Some wa" and "windows s wa = Some w"
  shows "gli_put_char_to_stream (Some a) ch s =
     Some ((emit (text_frame (win_id w) ch) s)
             \<lparr>streams := (streams s)(a \<mapsto> st\<lparr>writecount := writecount st + 1\<rparr>)\<rparr>)"
  using assms
  by (simp add: gli_put_char_to_stream_def upd_stream_def emit_text_frame emit_def)

lemma put_chars_window:
  assumes "streams s a = Some st" and "writable st" and "str_type st = 0"
    and "str_win st = Some wa" and "windows s wa = Some w"
  shows "\<exists>s'. put_chars (Some a) cs s = Some s'
           \<and> io s' = io s @ map (\<lambda>c. Put_line (text_frame (win_id w) c)) cs
           \<and> streams s' = (streams s)(a \<mapsto> st\<lparr>writecount := writecount st + of_nat (length cs)\<rparr>)
           \<and> windows s' = windows s \<and> exited s' = exited s"
  using assms
proof (induction cs arbitrary: s st)
  case Nil
  then show ?case by (simp add: map_upd_triv)
next
  case (Cons c cs)
  let ?st' = "st\<lparr>writecount := writecount st + 1\<rparr>"
  let ?s' = "(emit (text_frame (win_id w) c) s)\<lparr>streams := (streams s)(a \<mapsto> ?st')\<rparr>"
  have step: "gli_put_char_to_stream (Some a) c s = Some ?s'"
    using Cons.prems by (rule put_char_window)
  have "\<exists>s''. put_chars (Some a) cs ?s' = Some s''
           \<and> io s'' = io ?s' @ map (\<lambda>c. Put_line (text_frame (win_id w) c)) cs
           \<and> streams s'' = (streams ?s')(a \<mapsto> ?st'\<lparr>writecount := writecount ?st' + of_nat (length cs)\<rparr>)
           \<and> windows s'' = windows ?s' \<and> exited s'' = exited ?s'"
    by (rule Cons.IH) (use Cons.prems in \<open>simp_all add: emit_def\<close>)
  then show ?case
    by (auto simp: step emit_def add.assoc)
qed

lemma newline_notin_fmt_u_nat: "set (fmt_u_nat n) \<subseteq> set ''0123456789''"
proof (induction n rule: fmt_u_nat.induct)
  case (1 n)
  have d: "digit_char k \<in> set ''0123456789''" if "k < 10" for k
    unfolding digit_char_def using that by (intro nth_mem) simp
  show ?case
  proof (cases "n < 10")
    case True
    then show ?thesis using d[of n] by (subst fmt_u_nat.simps) simp
  next
    case False
    then show ?thesis using 1 d[of "n mod 10"] by (subst fmt_u_nat.simps) auto
  qed
qed

lemma newline_notin_fmt_u: "newline \<notin> set (fmt_u n)"
  using newline_notin_fmt_u_nat[of "unat n"] by (auto simp: fmt_u_def newline_def)

lemma newline_notin_fmt_04x: "newline \<notin> set (fmt_04x c)"
proof -
  have h: "hex_char k \<in> set ''0123456789abcdef''" if "k < 16" for k
    unfolding hex_char_def using that by (intro nth_mem) simp
  have "(of_char c :: nat) < 256" by (rule nat_of_char_less_256)
  then have "(of_char c :: nat) div 16 < 16" by (simp add: less_mult_imp_div_less)
  then have "hex_char (of_char c div 16) \<noteq> newline" "hex_char (of_char c mod 16) \<noteq> newline"
    using h[of "of_char c div 16"] h[of "of_char c mod 16"] by (auto simp: newline_def)
  then show ?thesis by (auto simp: fmt_04x_def newline_def)
qed

lemma newline_notin_escape_char: "newline \<notin> set (escape_char c)"
  using newline_notin_fmt_04x[of c] by (auto simp: escape_char_def newline_def)

subsection \<open>What each call prints\<close>

lemma frames_not_exit:
  "create_frame n t \<noteq> exit_frame" "clear_frame n \<noteq> exit_frame" "text_frame n ch \<noteq> exit_frame"
  "input_frame n kind \<noteq> exit_frame" "prompt_frame u f \<noteq> exit_frame"
  by (auto simp: create_frame_def clear_frame_def text_frame_def text_frame_head_def
      input_frame_def prompt_frame_def exit_frame_def dest: arg_cong[where f=length])

lemma clear_frame_fits: "length (clear_frame n) < 65536" "clear_frame n \<noteq> []"
  using length_fmt_u[of n] by (simp_all add: clear_frame_def)

lemma prompt_frame_fits: "length (prompt_frame u f) < 65536" "prompt_frame u f \<noteq> []"
  using length_fmt_u[of u] length_fmt_u[of f] by (simp_all add: prompt_frame_def)

lemma exit_frame_fits: "length exit_frame < 65536" "exit_frame \<noteq> []"
  by (simp_all add: exit_frame_def)

lemma glk_exit_result: "glk_exit s = Some ((emit exit_frame s)\<lparr>exited := True\<rparr>)"
  by (simp add: glk_exit_def json_append_reset json_flush_built exit_frame_fits)

lemma gli_stream_new_quiet:
  assumes "gli_stream_new type rd wr rock m s = Some (p, s')"
  shows "io s' = io s \<and> exited s' = exited s \<and> stdin s' = stdin s \<and> windows s' = windows s
         \<and> gli_window_id_counter s' = gli_window_id_counter s"
  using assms
  by (auto simp: gli_stream_new_def Let_def split: option.splits if_splits bind_splits elim!: upd_streamE)

lemma glk_stream_close_quiet:
  assumes "glk_stream_close str r s = Some (r', s')"
  shows "io s' = io s \<and> exited s' = exited s \<and> stdin s' = stdin s \<and> windows s' = windows s
         \<and> gli_windowlist s' = gli_windowlist s \<and> gli_rootwin s' = gli_rootwin s
         \<and> gli_window_id_counter s' = gli_window_id_counter s"
  using assms
  by (auto simp: glk_stream_close_def Let_def split: option.splits if_splits bind_splits
      elim!: upd_streamE fcloseE)

lemma glk_window_open_io:
  assumes "glk_window_open split method sz wintype rock mw ms s = Some (r, s')"
  shows "exited s' = exited s \<and> r = mw
       \<and> io s' = io s @ (case mw of None \<Rightarrow> []
                          | Some _ \<Rightarrow> [Put_line (create_frame (gli_window_id_counter s) wintype)])"
proof (cases mw)
  case None
  then show ?thesis using assms by (simp add: glk_window_open_def)
next
  case (Some a)
  then show ?thesis
    using assms
    by (auto simp: glk_window_open_def gli_stream_open_window_def Let_def json_append_reset
          json_flush_built create_frame_fits emit_def
        split: option.splits if_splits bind_splits prod.splits
        elim!: upd_streamE upd_windowE dest!: gli_stream_new_quiet)
qed

lemma prints_no_exit_refl: "prints_no_exit s s"
  by (simp add: prints_no_exit_def)

lemma prints_no_exit_trans:
  "prints_no_exit s s1 \<Longrightarrow> prints_no_exit s1 s2 \<Longrightarrow> prints_no_exit s s2"
  by (auto simp: prints_no_exit_def)

lemma quiet_prints_no_exit: "io s' = io s \<Longrightarrow> exited s' = exited s \<Longrightarrow> prints_no_exit s s'"
  by (simp add: prints_no_exit_def)

lemmas exit_not_frames = frames_not_exit[THEN not_sym]

lemma glk_window_open_prints:
  assumes "glk_window_open split method sz wintype rock mw ms s = Some (r, s')"
  shows "prints_no_exit s s'"
  using glk_window_open_io[OF assms]
  by (cases mw) (auto simp: prints_no_exit_def frames_not_exit exit_not_frames)

lemma glk_window_close_prints:
  assumes "glk_window_close win r s = Some (r', s')"
  shows "prints_no_exit s s'"
proof -
  have "io s' = io s \<and> exited s' = exited s"
    using assms
    by (auto simp: glk_window_close_def Let_def
        split: option.splits if_splits bind_splits prod.splits
        elim!: upd_streamE upd_windowE dest!: glk_stream_close_quiet)
  then show ?thesis by (simp add: prints_no_exit_def)
qed

lemma glk_window_clear_prints:
  assumes "glk_window_clear win s = Some s'"
  shows "prints_no_exit s s'"
  using assms
  by (auto simp: glk_window_clear_def json_append_reset json_flush_built clear_frame_fits emit_def
      prints_no_exit_def frames_not_exit exit_not_frames split: option.splits bind_splits)

lemma gli_put_char_to_stream_prints:
  assumes "gli_put_char_to_stream str ch s = Some s'"
  shows "prints_no_exit s s'"
  using assms
  by (auto simp: gli_put_char_to_stream_def emit_text_frame emit_def prints_no_exit_def frames_not_exit exit_not_frames
      split: option.splits if_splits bind_splits elim!: upd_streamE store_charE fputcE)

lemma put_chars_prints:
  assumes "put_chars str cs s = Some s'"
  shows "prints_no_exit s s'"
  using assms
proof (induction cs arbitrary: s)
  case Nil
  then show ?case by (simp add: prints_no_exit_refl)
next
  case (Cons c cs)
  then obtain s1 where "gli_put_char_to_stream str c s = Some s1" "put_chars str cs s1 = Some s'"
    by (auto split: bind_splits)
  then show ?case
    using Cons.IH gli_put_char_to_stream_prints prints_no_exit_trans by blast
qed

lemma glk_select_prints:
  assumes "glk_select K e s = Some (e', s')" and "\<not> exited s"
  shows "prints_no_exit s s' \<or> exits_with_frame s s'"
  using assms
  by (auto simp: glk_select_def Let_def json_append_reset json_flush_built input_frame_fits
        input_frame_nonempty emit_def glk_exit_result prints_no_exit_def exits_with_frame_def
        frames_not_exit exit_not_frames
      split: option.splits if_splits bind_splits prod.splits
      elim!: upd_windowE store_charE memcpyE)

lemma gli_fileref_new_quiet:
  assumes "gli_fileref_new K name usg rock m d s = Some (p, s')"
  shows "io s' = io s \<and> exited s' = exited s"
  using assms
  by (auto simp: gli_fileref_new_def Let_def split: option.splits if_splits bind_splits
      elim!: upd_filerefE)

lemma glk_fileref_create_by_prompt_prints:
  assumes "glk_fileref_create_by_prompt K usg fmode rock m d s = Some (p, s')"
  shows "prints_no_exit s s'"
  using assms
  by (auto simp: glk_fileref_create_by_prompt_def Let_def json_append_reset json_flush_built
        prompt_frame_fits emit_def prints_no_exit_def frames_not_exit exit_not_frames
      split: option.splits if_splits bind_splits prod.splits
      dest!: gli_fileref_new_quiet)

lemma step_quiet_calls:
  "glk_gestalt_ext K sel val arr len s = Some (v, s') \<Longrightarrow> prints_no_exit s s'"
  "glk_window_set_echo_stream win str s = Some s' \<Longrightarrow> prints_no_exit s s'"
  "glk_set_window win s = Some s' \<Longrightarrow> prints_no_exit s s'"
  "glk_stream_open_file fref fmode rock fo m s = Some (p, s') \<Longrightarrow> prints_no_exit s s'"
  "glk_stream_open_memory bufp len fmode rock m s = Some (p, s') \<Longrightarrow> prints_no_exit s s'"
  "glk_stream_open_memory_uni bufp len fmode rock m s = Some (p, s') \<Longrightarrow> prints_no_exit s s'"
  "glk_stream_close str r s = Some (r', s') \<Longrightarrow> prints_no_exit s s'"
  "glk_stream_set_position str pos mode s = Some s' \<Longrightarrow> prints_no_exit s s'"
  "glk_stream_set_current str s = Some s' \<Longrightarrow> prints_no_exit s s'"
  "glk_get_char_stream str s = Some (c, s') \<Longrightarrow> prints_no_exit s s'"
  "glk_fileref_create_temp K usg rock m d s = Some (p, s') \<Longrightarrow> prints_no_exit s s'"
  "glk_fileref_create_by_name K usg name rock m d s = Some (p, s') \<Longrightarrow> prints_no_exit s s'"
  "glk_fileref_create_from_fileref K usg fr rock m d s = Some (p, s') \<Longrightarrow> prints_no_exit s s'"
  "glk_fileref_destroy fr s = Some s' \<Longrightarrow> prints_no_exit s s'"
  "glk_select_poll e s = Some (e', s') \<Longrightarrow> prints_no_exit s s'"
  "glk_request_line_event win bufp maxlen initlen s = Some s' \<Longrightarrow> prints_no_exit s s'"
  "glk_request_char_event win s = Some s' \<Longrightarrow> prints_no_exit s s'"
  "glk_cancel_line_event win e s = Some (e', s') \<Longrightarrow> prints_no_exit s s'"
  "glk_cancel_char_event win s = Some s' \<Longrightarrow> prints_no_exit s s'"
  "glk_request_char_event_uni win s = Some s' \<Longrightarrow> prints_no_exit s s'"
  "glk_request_line_event_uni win bufp maxlen initlen s = Some s' \<Longrightarrow> prints_no_exit s s'"
  by (auto simp: glk_gestalt_ext_def glk_window_set_echo_stream_def glk_set_window_def
        glk_stream_open_file_def glk_stream_open_memory_def glk_stream_open_memory_uni_def
        glk_stream_set_position_def glk_stream_set_current_def glk_get_char_stream_def
        glk_fileref_create_temp_def glk_fileref_create_by_name_def
        glk_fileref_create_from_fileref_def glk_fileref_destroy_def glk_select_poll_def
        glk_request_line_event_def glk_request_char_event_def glk_cancel_line_event_def
        glk_cancel_char_event_def glk_request_char_event_uni_def glk_request_line_event_uni_def
        Let_def prints_no_exit_def
      split: option.splits if_splits bind_splits prod.splits gestalt.splits
      elim!: upd_streamE upd_windowE upd_filerefE store_uniE fseekE fgetcE fcloseE
      dest!: gli_stream_new_quiet glk_stream_close_quiet gli_fileref_new_quiet)

lemma no_exit_then_exits:
  "prints_no_exit s s1 \<Longrightarrow> exits_with_frame s1 s2 \<Longrightarrow> exits_with_frame s s2"
  by (auto simp: prints_no_exit_def exits_with_frame_def)

lemma step_prints:
  assumes "step K c s = Some s'" and "\<not> exited s"
  shows "prints_no_exit s s' \<or> exits_with_frame s s'"
proof (cases c)
  case Exit
  then show ?thesis using assms by (auto simp: glk_exit_result emit_def exits_with_frame_def)
next
  case (Select e)
  then show ?thesis using assms by (auto dest!: glk_select_prints)
next
  case (Mem_write b arr)
  then show ?thesis using assms by (auto simp: prints_no_exit_def)
next
  case (Mem_write_uni b arr)
  then show ?thesis using assms by (auto simp: prints_no_exit_def)
qed (use assms in \<open>auto simp: prints_no_exit_refl glk_put_char_def glk_put_char_stream_def glk_put_string_def
        glk_put_string_stream_def glk_put_buffer_def glk_put_buffer_stream_def
      split: option.splits if_splits
      dest: step_quiet_calls glk_window_open_prints glk_window_close_prints glk_window_clear_prints
        gli_put_char_to_stream_prints put_chars_prints glk_fileref_create_by_prompt_prints\<close>)

lemma run_exited: "exited s \<Longrightarrow> run K cs s = Some s"
  by (cases cs) simp_all

lemma run_prints:
  assumes "run K cs s = Some s'" and "\<not> exited s"
  shows "prints_no_exit s s' \<or> exits_with_frame s s'"
  using assms
proof (induction cs arbitrary: s)
  case Nil
  then show ?case by (simp add: prints_no_exit_refl)
next
  case (Cons c cs)
  then obtain s1 where s1: "step K c s = Some s1" and r: "run K cs s1 = Some s'"
    by (auto split: bind_splits)
  from step_prints[OF s1 Cons.prems(2)] show ?case
  proof
    assume p: "prints_no_exit s s1"
    then have "\<not> exited s1" using Cons.prems(2) by (simp add: prints_no_exit_def)
    from Cons.IH[OF r this] p show ?thesis
      using prints_no_exit_trans no_exit_then_exits by blast
  next
    assume e: "exits_with_frame s s1"
    then have "exited s1" by (simp add: exits_with_frame_def)
    then have "s' = s1" using r run_exited[of s1 K cs] by simp
    then show ?thesis using e by simp
  qed
qed

lemma init_frame_fits: "length init_frame < 65536" "init_frame \<noteq> []"
  by (simp_all add: init_frame_def)

lemma program_start_result:
  "program_start inp = Some (emit init_frame (initial_state inp))"
  by (simp add: program_start_def json_append_reset json_flush_built init_frame_fits)

subsection \<open>End of input\<close>

lemma glk_select_eof:
  assumes "find_request (windows s) (gli_windowlist s) = Some (Some a)"
    and "windows s a = Some w" and "stdin s = []"
  shows "glk_select K (Some e) s =
     Some (Some no_event,
           (emit exit_frame
              ((emit (input_frame (win_id w)
                        (if line_request w \<or> line_request_uni w then ''line'' else ''char'')) s)
                 \<lparr>io := io s @ [Put_line (input_frame (win_id w)
                        (if line_request w \<or> line_request_uni w then ''line'' else ''char'')),
                                Get_eof]\<rparr>))
             \<lparr>exited := True\<rparr>)"
  using assms
  by (simp add: glk_select_def json_append_reset json_flush_built input_frame_fits
       input_frame_nonempty emit_def fgets_def glk_exit_result)

text \<open>
  C2. When the scan of \<^verbatim>\<open>glk_select\<close> has found a window and standard input is at its
  end, the call prints the input frame, meets the end of input, prints the exit frame
  and ends the process. A process that has ended runs no further call. In every
  execution from the program start, through any calls on any input, the output holds
  no exit frame while the process runs, and once it has ended the exit frame stands
  once, as the last line; so does it when \<^verbatim>\<open>main\<close> returns.
\<close>

theorem exit_frame_ends_output:
  "(find_request (windows s) (gli_windowlist s) = Some (Some a) \<and> windows s a = Some w
      \<and> stdin s = [] \<longrightarrow>
      (\<exists>s'. glk_select K (Some e) s = Some (Some no_event, s') \<and> exited s'
         \<and> io s' = io s @ [Put_line (input_frame (win_id w)
                              (if line_request w \<or> line_request_uni w then ''line'' else ''char'')),
                            Get_eof, Put_line exit_frame]))
   \<and> (exited s \<longrightarrow> run K cs s = Some s)
   \<and> (\<forall>s1 s2. program_start inp = Some s1 \<and> run K cs s1 = Some s2 \<longrightarrow>
         (if exited s2
          then \<exists>pre. io s2 = pre @ [Put_line exit_frame] \<and> Put_line exit_frame \<notin> set pre
          else Put_line exit_frame \<notin> set (io s2)))
   \<and> (\<forall>s'. main K cs inp = Some s' \<longrightarrow>
         exited s' \<and> (\<exists>pre. io s' = pre @ [Put_line exit_frame] \<and> Put_line exit_frame \<notin> set pre))"
proof -
  have ie: "init_frame \<noteq> exit_frame" by (simp add: init_frame_def exit_frame_def)
  have a: "find_request (windows s) (gli_windowlist s) = Some (Some a) \<and> windows s a = Some w
      \<and> stdin s = [] \<longrightarrow>
      (\<exists>s'. glk_select K (Some e) s = Some (Some no_event, s') \<and> exited s'
         \<and> io s' = io s @ [Put_line (input_frame (win_id w)
                              (if line_request w \<or> line_request_uni w then ''line'' else ''char'')),
                            Get_eof, Put_line exit_frame])"
    using glk_select_eof[of s a w K e] by (auto simp: emit_def)
  have c: "if exited s2
          then \<exists>pre. io s2 = pre @ [Put_line exit_frame] \<and> Put_line exit_frame \<notin> set pre
          else Put_line exit_frame \<notin> set (io s2)"
    if "program_start inp = Some s1" and r: "run K cs s1 = Some s2" for s1 s2
  proof -
    have s1: "io s1 = [Put_line init_frame]" "\<not> exited s1"
      using that(1) by (auto simp: program_start_result emit_def initial_state_def)
    from run_prints[OF r s1(2)] show ?thesis
    proof
      assume "prints_no_exit s1 s2"
      then show ?thesis using s1 ie by (auto simp: prints_no_exit_def)
    next
      assume "exits_with_frame s1 s2"
      then obtain pre where "exited s2" "io s2 = io s1 @ pre @ [Put_line exit_frame]"
        "Put_line exit_frame \<notin> set pre"
        by (auto simp: exits_with_frame_def)
      then have "io s2 = (Put_line init_frame # pre) @ [Put_line exit_frame]"
        "Put_line exit_frame \<notin> set (Put_line init_frame # pre)"
        using s1 ie by auto
      then show ?thesis using \<open>exited s2\<close> by metis
    qed
  qed
  have d: "exited s' \<and> (\<exists>pre. io s' = pre @ [Put_line exit_frame] \<and> Put_line exit_frame \<notin> set pre)"
    if "main K cs inp = Some s'" for s'
  proof -
    from that obtain s1 s2 where s1: "program_start inp = Some s1" and r: "run K cs s1 = Some s2"
      and f: "(if exited s2 then Some s2 else glk_exit s2) = Some s'"
      by (auto simp: main_def split: bind_splits)
    show ?thesis
    proof (cases "exited s2")
      case True
      then show ?thesis using c[OF s1 r] f by simp
    next
      case False
      then have "Put_line exit_frame \<notin> set (io s2)" using c[OF s1 r] by simp
      moreover have "s' = (emit exit_frame s2)\<lparr>exited := True\<rparr>"
        using f False by (simp add: glk_exit_result)
      ultimately show ?thesis by (simp add: emit_def)
    qed
  qed
  show ?thesis using a c d run_exited by blast
qed

theorem exit_frame_ends_output_witness:
  "\<exists>s'. main glk_h_0_7 wait_for_char [] = Some s'
       \<and> io s' = [Put_line init_frame, Put_line (create_frame 1 3), Put_line (input_frame 1 ''char''),
                   Get_eof, Put_line exit_frame]
       \<and> exited s'
       \<and> (\<exists>pre. io s' = pre @ [Put_line exit_frame] \<and> Put_line exit_frame \<notin> set pre)"
proof -
  obtain s' where m: "main glk_h_0_7 wait_for_char [] = Some s'"
    and i: "io s' = [Put_line init_frame, Put_line (create_frame 1 3), Put_line (input_frame 1 ''char''),
                   Get_eof, Put_line exit_frame]"
    by (simp add: main_def program_start_result wait_for_char_def emit_def initial_state_def
        glk_window_open_def gli_stream_open_window_def gli_stream_new_def upd_stream_def
        upd_window_def json_append_reset json_flush_built create_frame_fits zero_window_def
        zero_stream_def glk_request_char_event_def flag_event_def glk_select_def
        find_request.simps input_frame_fits input_frame_nonempty fgets_def glk_exit_result)
  from exit_frame_ends_output[of _ _ _ glk_h_0_7 _ wait_for_char "[]"] m
  have "exited s' \<and> (\<exists>pre. io s' = pre @ [Put_line exit_frame] \<and> Put_line exit_frame \<notin> set pre)"
    by blast
  with m i show ?thesis by blast
qed

subsection \<open>One frame for each call or character\<close>

lemma frames_single_line:
  "newline \<notin> set (create_frame n t)" "newline \<notin> set (clear_frame n)"
  "newline \<notin> set (text_frame n ch)"
proof -
  have e: "newline \<notin> set (concat (map escape_char cs))" for cs
    using newline_notin_escape_char by auto
  show "newline \<notin> set (create_frame n t)" "newline \<notin> set (clear_frame n)"
    using newline_notin_fmt_u[of n] newline_notin_fmt_u[of t]
    by (auto simp: create_frame_def clear_frame_def newline_def)
  show "newline \<notin> set (text_frame n ch)"
    using newline_notin_fmt_u[of n] e[of "c_string [ch, NUL]"]
    by (auto simp: text_frame_def text_frame_head_def newline_def)
qed

lemma glk_window_clear_result:
  assumes "windows s a = Some w"
  shows "glk_window_clear (Some a) s = Some (emit (clear_frame (win_id w)) s)"
  using assms
  by (simp add: glk_window_clear_def json_append_reset json_flush_built clear_frame_fits)

text \<open>
  C8, amended. A window creation that returns prints exactly one frame, the create
  frame; a window clear prints exactly one frame; a character written to the stream of
  a window prints exactly one frame; a string or buffer written to it prints one frame
  for each of its characters, in order. None of these frames holds a newline.
\<close>

theorem calls_print_frames:
  "(glk_window_open split method sz wintype rock (Some a) ms s = Some (r, s') \<longrightarrow>
      io s' = io s @ [Put_line (create_frame (gli_window_id_counter s) wintype)])
   \<and> (windows s a = Some w \<longrightarrow>
        (\<exists>s'. glk_window_clear (Some a) s = Some s'
              \<and> io s' = io s @ [Put_line (clear_frame (win_id w))]))
   \<and> (streams s sa = Some st \<and> writable st \<and> str_type st = 0 \<and> str_win st = Some wa
        \<and> windows s wa = Some ww \<longrightarrow>
        (\<exists>s'. glk_put_char_stream (Some sa) ch s = Some s'
              \<and> io s' = io s @ [Put_line (text_frame (win_id ww) ch)])
      \<and> (NUL \<in> set cs \<longrightarrow>
           (\<exists>s'. glk_put_string_stream (Some sa) (Some cs) s = Some s'
                 \<and> io s' = io s @ map (\<lambda>c. Put_line (text_frame (win_id ww) c)) (c_string cs)))
      \<and> (unat len \<le> length cs \<longrightarrow>
           (\<exists>s'. glk_put_buffer_stream (Some sa) (Some cs) len s = Some s'
                 \<and> io s' = io s @ map (\<lambda>c. Put_line (text_frame (win_id ww) c)) (take (unat len) cs))))
   \<and> newline \<notin> set (create_frame n t) \<and> newline \<notin> set (clear_frame n)
   \<and> newline \<notin> set (text_frame n ch)"
proof -
  have o: "glk_window_open split method sz wintype rock (Some a) ms s = Some (r, s') \<longrightarrow>
      io s' = io s @ [Put_line (create_frame (gli_window_id_counter s) wintype)]"
    using glk_window_open_io[where mw = "Some a" and s = s and s' = s'] by auto
  have c: "windows s a = Some w \<longrightarrow>
        (\<exists>s'. glk_window_clear (Some a) s = Some s'
              \<and> io s' = io s @ [Put_line (clear_frame (win_id w))])"
    by (simp add: glk_window_clear_result emit_def)
  have p: "(\<exists>s'. glk_put_char_stream (Some sa) ch s = Some s'
              \<and> io s' = io s @ [Put_line (text_frame (win_id ww) ch)])
      \<and> (NUL \<in> set cs \<longrightarrow>
           (\<exists>s'. glk_put_string_stream (Some sa) (Some cs) s = Some s'
                 \<and> io s' = io s @ map (\<lambda>c. Put_line (text_frame (win_id ww) c)) (c_string cs)))
      \<and> (unat len \<le> length cs \<longrightarrow>
           (\<exists>s'. glk_put_buffer_stream (Some sa) (Some cs) len s = Some s'
                 \<and> io s' = io s @ map (\<lambda>c. Put_line (text_frame (win_id ww) c)) (take (unat len) cs)))"
    if h: "streams s sa = Some st" "writable st" "str_type st = 0" "str_win st = Some wa"
      "windows s wa = Some ww"
  proof -
    have 1: "\<exists>s'. glk_put_char_stream (Some sa) ch s = Some s'
              \<and> io s' = io s @ [Put_line (text_frame (win_id ww) ch)]"
      using put_char_window[OF h, of ch] by (simp add: glk_put_char_stream_def emit_def)
    have 2: "\<exists>s'. put_chars (Some sa) xs s = Some s'
              \<and> io s' = io s @ map (\<lambda>c. Put_line (text_frame (win_id ww) c)) xs" for xs
      using put_chars_window[OF h, of xs] by blast
    show ?thesis
      using 1 2 by (simp add: glk_put_string_stream_def glk_put_buffer_stream_def)
  qed
  show ?thesis using o c p frames_single_line by blast
qed

theorem calls_print_frames_witness:
  "do { (win, s1) \<leftarrow> one_window [];
        s2 \<leftarrow> glk_put_buffer_stream (Some 0) (Some ''hi'') 2 s1;
        Some (io s2) }
   = Some [Put_line (create_frame 1 3), Put_line (text_frame 1 CHR ''h''),
           Put_line (text_frame 1 CHR ''i'')]"
proof -
  let ?st = "zero_stream\<lparr>str_magicnum := MAGIC_STREAM_NUM, str_id := 1, writable := True,
                          str_win := Some 0\<rparr>"
  let ?w = "zero_window\<lparr>win_magicnum := MAGIC_WINDOW_NUM, win_type := 3, win_id := 1,
                        win_str := Some 0\<rparr>"
  obtain s1 where s1: "one_window [] = Some (Some 0, s1)"
    and st: "streams s1 0 = Some ?st" and w: "windows s1 0 = Some ?w"
    by (simp add: one_window_state emit_def)
  have "glk_window_open None 0 0 3 0 (Some 0) (Some 0) (initial_state []) = Some (Some 0, s1)"
    using s1 by (simp add: one_window_def)
  then have i1: "io s1 = io (initial_state []) @ [Put_line (create_frame (gli_window_id_counter (initial_state [])) 3)]"
    using calls_print_frames[of None 0 0 3 0 0 "Some 0" "initial_state []" "Some 0" s1] by blast
  have "\<exists>s'. glk_put_buffer_stream (Some 0) (Some ''hi'') 2 s1 = Some s'
           \<and> io s' = io s1 @ map (\<lambda>c. Put_line (text_frame (win_id ?w) c)) (take (unat (2::glui32)) ''hi'')"
    using calls_print_frames[where s = s1 and sa = 0 and st = ?st and wa = 0 and ww = ?w
         and len = 2 and cs = "''hi''"] st w
    by (simp add: zero_stream_def)
  then obtain s2 where "glk_put_buffer_stream (Some 0) (Some ''hi'') 2 s1 = Some s2"
    and "io s2 = io s1 @ [Put_line (text_frame 1 CHR ''h''), Put_line (text_frame 1 CHR ''i'')]"
    by (auto simp: zero_window_def)
  then show ?thesis using i1 by (simp add: s1 initial_state_def)
qed

text \<open>
  C8 as stated fails for a write of several characters: one \<^verbatim>\<open>glk_put_string\<close> of the
  string \<open>hi\<close> to the window's stream prints two frames, one for each character.
\<close>

theorem put_string_prints_two_frames:
  "do { (win, s1) \<leftarrow> one_window [];
        s2 \<leftarrow> glk_set_window win s1;
        s3 \<leftarrow> glk_put_string (Some (''hi'' @ [NUL])) s2;
        Some (drop (length (io s2)) (io s3)) }
   = Some [Put_line ''{\"type\":\"update\",\"content\":[{\"id\":1,\"text\":\"h\"}]}'',
           Put_line ''{\"type\":\"update\",\"content\":[{\"id\":1,\"text\":\"i\"}]}'']"
proof -
  let ?st = "zero_stream\<lparr>str_magicnum := MAGIC_STREAM_NUM, str_id := 1, writable := True,
                          str_win := Some 0\<rparr>"
  let ?w = "zero_window\<lparr>win_magicnum := MAGIC_WINDOW_NUM, win_type := 3, win_id := 1,
                        win_str := Some 0\<rparr>"
  obtain s2 where s2: "do { (win, s1) \<leftarrow> one_window []; glk_set_window win s1 } = Some s2"
    and st: "streams s2 0 = Some ?st" and w: "windows s2 0 = Some ?w"
    and c: "gli_currentstr s2 = Some 0"
    by (simp add: one_window_state emit_def glk_set_window_def)
  have cs: "c_string [CHR ''h'', CHR ''i'', NUL] = ''hi''" by (simp add: c_string_def NUL_def)
  have tf: "text_frame 1 CHR ''h'' = ''{\"type\":\"update\",\"content\":[{\"id\":1,\"text\":\"h\"}]}''"
     "text_frame 1 CHR ''i'' = ''{\"type\":\"update\",\"content\":[{\"id\":1,\"text\":\"i\"}]}''"
    by (simp_all add: text_frame_def text_frame_head_def fmt_u_def fmt_u_nat.simps digit_char_def
        c_string_def NUL_def escape_char_def)
  have g: "glk_put_string (Some [CHR ''h'', CHR ''i'', NUL]) s2 = put_chars (Some 0) ''hi'' s2"
    using cs by (simp add: glk_put_string_def glk_put_string_stream_def c del: put_chars.simps)
  obtain s3 where p: "put_chars (Some 0) ''hi'' s2 = Some s3"
    and "io s3 = io s2 @ map (\<lambda>c. Put_line (text_frame (win_id ?w) c)) ''hi''"
    using put_chars_window[OF st _ _ _ w, where cs = "''hi''"]
    by (auto simp: zero_stream_def simp del: put_chars.simps)
  then have "glk_put_string (Some (''hi'' @ [NUL])) s2 = Some s3"
    and "drop (length (io s2)) (io s3)
          = [Put_line ''{\"type\":\"update\",\"content\":[{\"id\":1,\"text\":\"h\"}]}'',
             Put_line ''{\"type\":\"update\",\"content\":[{\"id\":1,\"text\":\"i\"}]}'']"
    by (simp_all add: g tf zero_window_def del: put_chars.simps)
  with s2 show ?thesis
    by (cases "one_window []") (auto split: prod.splits)
qed

subsection \<open>Identifiers\<close>



subsection \<open>What the calls leave alone\<close>


































subsection \<open>Identifiers and live objects over an execution\<close>

lemma run_append: "run K (xs @ ys) s = do { s1 \<leftarrow> run K xs s; run K ys s1 }"
proof (induction xs arbitrary: s)
  case Nil
  then show ?case by simp
next
  case (Cons c xs)
  show ?case
  proof (cases "exited s")
    case True
    then show ?thesis by (cases ys) simp_all
  next
    case False
    then show ?thesis using Cons.IH by (cases "step K c s") simp_all
  qed
qed








end
